theory Spec2Isabelle
  imports Complex_Main
begin

section \<open>Admin dashboard script: values, page and module state\<close>

text \<open>
  The development follows \<^verbatim>\<open>static/js/admin/dashboard.js\<close>. The script is one closure
  with module-level variables, run by the browser's event loop: every function below is one
  uninterrupted run of a handler, taking the state before and returning the state after.

  JavaScript strings are lists of code units, one \<^typ>\<open>char\<close> each. A number is the
  rational its decimal text denotes; the script never computes with one, and how a number is
  printed is left to the browser.
\<close>

subsection \<open>Exceptions\<close>

datatype js_error =
    TypeError
  | SyntaxError
  | Error string

subsection \<open>Parsed JSON\<close>

datatype json =
    JNull
  | JBool bool
  | JNum rat
  | JStr string
  | JArr "json list"
  | JObj "(string \<times> json) list"

subsection \<open>Strings\<close>

text \<open>\<^verbatim>\<open>s.includes(t)\<close>: \<open>t\<close> occurs in \<open>s\<close> as a contiguous run.\<close>

fun str_includes :: "string \<Rightarrow> string \<Rightarrow> bool" where
  "str_includes [] t = (t = [])"
| "str_includes (c # s) t = (take (length t) (c # s) = t \<or> str_includes s t)"

text \<open>\<^verbatim>\<open>s.substring(0, n)\<close> is \<^term>\<open>take n s\<close>.\<close>

definition digit_char :: "nat \<Rightarrow> char" where
  "digit_char d = char_of (48 + d)"

text \<open>The decimal text of a non-negative integer, as a template literal prints it.\<close>

fun show_nat :: "nat \<Rightarrow> string" where
  "show_nat n = (if n < 10 then [digit_char n] else show_nat (n div 10) @ [digit_char (n mod 10)])"

declare show_nat.simps [simp del]

section \<open>Objects of the running script\<close>

text \<open>
  Objects and arrays live in a store and are known by their address; two variables holding
  the same address share the object. A value is a primitive or the address of an object.
  \<open>VFun\<close> is a built-in function value (the script reaches one only as the \<^verbatim>\<open>values\<close>
  method of an array).
\<close>

type_synonym addr = nat

datatype val =
    VUndefined
  | VNull
  | VBool bool
  | VNum rat
  | VStr string
  | VFun
  | VRef addr

text \<open>An array has its elements and, as every object, named properties of its own.\<close>

datatype obj =
    Arr "val list" "(string \<times> val) list"
  | Obj "(string \<times> val) list"

type_synonym heap = "obj list"

definition alloc :: "heap \<Rightarrow> obj \<Rightarrow> heap \<times> val" where
  "alloc h ob = (h @ [ob], VRef (length h))"

text \<open>
  Building the object graph of a parsed JSON text (\<^verbatim>\<open>response.json()\<close>, \<^verbatim>\<open>JSON.parse\<close>) or
  of an object literal whose parts are constants: every array and object of the tree is a new
  object of the store.
\<close>

fun of_json :: "heap \<Rightarrow> json \<Rightarrow> heap \<times> val"
  and of_jsons :: "heap \<Rightarrow> json list \<Rightarrow> heap \<times> val list"
  and of_fields :: "heap \<Rightarrow> (string \<times> json) list \<Rightarrow> heap \<times> (string \<times> val) list"
where
  "of_json h JNull = (h, VNull)"
| "of_json h (JBool b) = (h, VBool b)"
| "of_json h (JNum n) = (h, VNum n)"
| "of_json h (JStr s) = (h, VStr s)"
| "of_json h (JArr js) = (case of_jsons h js of (h1, vs) \<Rightarrow> alloc h1 (Arr vs []))"
| "of_json h (JObj fs) = (case of_fields h fs of (h1, ps) \<Rightarrow> alloc h1 (Obj ps))"
| "of_jsons h [] = (h, [])"
| "of_jsons h (j # js) =
     (case of_json h j of (h1, v) \<Rightarrow> case of_jsons h1 js of (h2, vs) \<Rightarrow> (h2, v # vs))"
| "of_fields h [] = (h, [])"
| "of_fields h ((k, j) # fs) =
     (case of_json h j of (h1, v) \<Rightarrow> case of_fields h1 fs of (h2, ps) \<Rightarrow> (h2, (k, v) # ps))"

text \<open>
  The tree a value unfolds to when its references are followed, as \<^verbatim>\<open>JSON.stringify\<close> and
  \<^verbatim>\<open>Array.prototype.join\<close> walk it: \<open>stk\<close> holds the objects being walked, and an object met
  again below itself is marked \<open>TCyc\<close> instead of being entered.
\<close>

datatype tree =
    TUndef
  | TNull
  | TBool bool
  | TNum rat
  | TStr string
  | TFun
  | TCyc
  | TArr "tree list"
  | TObj "(string \<times> tree) list"

function snapshot :: "heap \<Rightarrow> addr list \<Rightarrow> val \<Rightarrow> tree" where
  "snapshot h stk VUndefined = TUndef"
| "snapshot h stk VNull = TNull"
| "snapshot h stk (VBool b) = TBool b"
| "snapshot h stk (VNum n) = TNum n"
| "snapshot h stk (VStr s) = TStr s"
| "snapshot h stk VFun = TFun"
| "snapshot h stk (VRef a) =
     (if a \<in> set stk then TCyc
      else if length h \<le> a then TUndef
      else (case h ! a of
              Arr xs ps \<Rightarrow> TArr (map (\<lambda>x. snapshot h (a # stk) x) xs)
            | Obj ps \<Rightarrow> TObj (map (\<lambda>kv. (fst kv, snapshot h (a # stk) (snd kv))) ps)))"
  by pat_completeness auto
termination
proof (relation "measure (\<lambda>(h, stk, v). length h - card (set stk \<inter> {..<length h}))")
  show "wf (measure (\<lambda>(h, stk, v). length h - card (set stk \<inter> {..<length h})))"
    by simp
next
  fix h :: heap and stk :: "addr list" and a :: addr and xs ps and x :: val
  assume a: "a \<notin> set stk" "\<not> length h \<le> a"
  have sub: "set stk \<inter> {..<length h} \<subset> set (a # stk) \<inter> {..<length h}"
    using a by auto
  have le: "card (set (a # stk) \<inter> {..<length h}) \<le> length h"
    using card_mono [of "{..<length h}" "set (a # stk) \<inter> {..<length h}"] by simp
  have "card (set stk \<inter> {..<length h}) < card (set (a # stk) \<inter> {..<length h})"
    using sub by (intro psubset_card_mono) simp_all
  with le show "((h, a # stk, x), (h, stk, VRef a))
      \<in> measure (\<lambda>(h, stk, v). length h - card (set stk \<inter> {..<length h}))"
    by simp
next
  fix h :: heap and stk :: "addr list" and a :: addr and ps and kv :: "string \<times> val"
  assume a: "a \<notin> set stk" "\<not> length h \<le> a"
  have sub: "set stk \<inter> {..<length h} \<subset> set (a # stk) \<inter> {..<length h}"
    using a by auto
  have le: "card (set (a # stk) \<inter> {..<length h}) \<le> length h"
    using card_mono [of "{..<length h}" "set (a # stk) \<inter> {..<length h}"] by simp
  have "card (set stk \<inter> {..<length h}) < card (set (a # stk) \<inter> {..<length h})"
    using sub by (intro psubset_card_mono) simp_all
  with le show "((h, a # stk, snd kv), (h, stk, VRef a))
      \<in> measure (\<lambda>(h, stk, v). length h - card (set stk \<inter> {..<length h}))"
    by simp
qed

subsection \<open>Reading and writing properties\<close>

text \<open>
  \<^verbatim>\<open>v.k\<close> for the property names the script reads. Reading a property of \<^verbatim>\<open>undefined\<close> or
  \<^verbatim>\<open>null\<close> throws; a primitive has the inherited \<^verbatim>\<open>length\<close> of a string and nothing else
  the script asks for; an array answers \<^verbatim>\<open>length\<close>, its own named properties and the
  inherited method \<^verbatim>\<open>values\<close>; an object answers its own properties. An address outside
  the store (no running script holds one) reads as \<^verbatim>\<open>undefined\<close>.
\<close>

fun get_prop :: "heap \<Rightarrow> val \<Rightarrow> string \<Rightarrow> js_error + val" where
  "get_prop h VUndefined k = Inl TypeError"
| "get_prop h VNull k = Inl TypeError"
| "get_prop h (VBool b) k = Inr VUndefined"
| "get_prop h (VNum n) k = Inr VUndefined"
| "get_prop h (VStr s) k = Inr (if k = ''length'' then VNum (of_nat (length s)) else VUndefined)"
| "get_prop h VFun k =
     Inr (if k = ''length'' then VNum 0 else if k = ''name'' then VStr ''values'' else VUndefined)"
| "get_prop h (VRef a) k =
     (if length h \<le> a then Inr VUndefined
      else (case h ! a of
              Arr xs ps \<Rightarrow>
                Inr (if k = ''length'' then VNum (of_nat (length xs))
                     else (case map_of ps k of
                             Some v \<Rightarrow> v
                           | None \<Rightarrow> if k = ''values'' then VFun else VUndefined))
            | Obj ps \<Rightarrow> Inr (case map_of ps k of Some v \<Rightarrow> v | None \<Rightarrow> VUndefined)))"

text \<open>An assignment keeps the place of a property that exists and appends a new one.\<close>

fun assign :: "(string \<times> val) list \<Rightarrow> string \<Rightarrow> val \<Rightarrow> (string \<times> val) list" where
  "assign [] k v = [(k, v)]"
| "assign (p # ps) k v = (if fst p = k then (k, v) # ps else p # assign ps k v)"

text \<open>
  \<^verbatim>\<open>target.k = v\<close> in strict mode, for the names the script writes (\<^verbatim>\<open>plugins\<close>,
  \<^verbatim>\<open>legend\<close>, \<^verbatim>\<open>zoom\<close>, \<^verbatim>\<open>maintainAspectRatio\<close>): it throws on \<^verbatim>\<open>undefined\<close>,
  \<^verbatim>\<open>null\<close> and on a primitive. A built-in function is not an object of the store and is
  never a target here.
\<close>

fun set_prop :: "heap \<Rightarrow> val \<Rightarrow> string \<Rightarrow> val \<Rightarrow> js_error + heap" where
  "set_prop h (VRef a) k v =
     (if length h \<le> a then Inr h
      else (case h ! a of
              Arr xs ps \<Rightarrow> Inr (h[a := Arr xs (assign ps k v)])
            | Obj ps \<Rightarrow> Inr (h[a := Obj (assign ps k v)])))"
| "set_prop h VFun k v = Inr h"
| "set_prop h _ k v = Inl TypeError"

fun truthy :: "val \<Rightarrow> bool" where
  "truthy VUndefined = False"
| "truthy VNull = False"
| "truthy (VBool b) = b"
| "truthy (VNum n) = (n \<noteq> 0)"
| "truthy (VStr s) = (s \<noteq> [])"
| "truthy VFun = True"
| "truthy (VRef a) = True"

subsection \<open>Conversion to text\<close>

fun join :: "string list \<Rightarrow> string" where
  "join [] = []"
| "join [s] = s"
| "join (s # t # ss) = s @ '','' @ join (t # ss)"

text \<open>\<^verbatim>\<open>String(v)\<close> on the unfolded value, \<open>nt\<close> being the browser's printing of a number;
  an array joins its elements with commas, where \<^verbatim>\<open>undefined\<close>, \<^verbatim>\<open>null\<close> and an array
  met inside itself give the empty text.\<close>

fun tree_text :: "(rat \<Rightarrow> string) \<Rightarrow> tree \<Rightarrow> string" where
  "tree_text nt TUndef = ''undefined''"
| "tree_text nt TNull = ''null''"
| "tree_text nt (TBool b) = (if b then ''true'' else ''false'')"
| "tree_text nt (TNum n) = nt n"
| "tree_text nt (TStr s) = s"
| "tree_text nt TFun = ''function values() { [native code] }''"
| "tree_text nt TCyc = []"
| "tree_text nt (TObj ps) = ''[object Object]''"
| "tree_text nt (TArr ts) =
     join (map (\<lambda>t. case t of TUndef \<Rightarrow> [] | TNull \<Rightarrow> [] | _ \<Rightarrow> tree_text nt t) ts)"

definition to_string :: "(rat \<Rightarrow> string) \<Rightarrow> heap \<Rightarrow> val \<Rightarrow> string" where
  "to_string nt h v = tree_text nt (snapshot h [] v)"

text \<open>Assigning to \<^verbatim>\<open>textContent\<close>: \<^verbatim>\<open>null\<close> and \<^verbatim>\<open>undefined\<close> give the empty text.\<close>

definition dom_string :: "(rat \<Rightarrow> string) \<Rightarrow> heap \<Rightarrow> val \<Rightarrow> string" where
  "dom_string nt h v = (case v of VUndefined \<Rightarrow> [] | VNull \<Rightarrow> [] | _ \<Rightarrow> to_string nt h v)"

subsection \<open>JSON.stringify and JSON.parse\<close>

text \<open>
  The JSON text is kept as its tree. \<^verbatim>\<open>JSON.stringify\<close> gives \<^verbatim>\<open>undefined\<close> (\<open>None\<close>) for
  \<^verbatim>\<open>undefined\<close> and for a function, writes \<^verbatim>\<open>null\<close> for them inside an array, leaves
  their property out of an object, and throws on a circular structure.
\<close>

fun stringify :: "tree \<Rightarrow> js_error + json option"
  and stringify_elems :: "tree list \<Rightarrow> js_error + json list"
  and stringify_fields :: "(string \<times> tree) list \<Rightarrow> js_error + (string \<times> json) list"
where
  "stringify TUndef = Inr None"
| "stringify TFun = Inr None"
| "stringify TCyc = Inl TypeError"
| "stringify TNull = Inr (Some JNull)"
| "stringify (TBool b) = Inr (Some (JBool b))"
| "stringify (TNum n) = Inr (Some (JNum n))"
| "stringify (TStr s) = Inr (Some (JStr s))"
| "stringify (TArr ts) =
     (case stringify_elems ts of Inl e \<Rightarrow> Inl e | Inr js \<Rightarrow> Inr (Some (JArr js)))"
| "stringify (TObj fs) =
     (case stringify_fields fs of Inl e \<Rightarrow> Inl e | Inr js \<Rightarrow> Inr (Some (JObj js)))"
| "stringify_elems [] = Inr []"
| "stringify_elems (t # ts) =
     (case stringify t of
        Inl e \<Rightarrow> Inl e
      | Inr jo \<Rightarrow>
          (case stringify_elems ts of
             Inl e \<Rightarrow> Inl e
           | Inr js \<Rightarrow> Inr ((case jo of None \<Rightarrow> JNull | Some j \<Rightarrow> j) # js)))"
| "stringify_fields [] = Inr []"
| "stringify_fields ((k, t) # fs) =
     (case stringify t of
        Inl e \<Rightarrow> Inl e
      | Inr jo \<Rightarrow>
          (case stringify_fields fs of
             Inl e \<Rightarrow> Inl e
           | Inr js \<Rightarrow> Inr (case jo of None \<Rightarrow> js | Some j \<Rightarrow> (k, j) # js)))"

definition JSON_stringify :: "heap \<Rightarrow> val \<Rightarrow> js_error + json option" where
  "JSON_stringify h v = stringify (snapshot h [] v)"

text \<open>\<^verbatim>\<open>JSON.parse\<close> of what \<^verbatim>\<open>JSON.stringify\<close> gave: of \<^verbatim>\<open>undefined\<close> it throws.\<close>

definition JSON_parse :: "heap \<Rightarrow> json option \<Rightarrow> js_error + heap \<times> val" where
  "JSON_parse h t = (case t of None \<Rightarrow> Inl SyntaxError | Some j \<Rightarrow> Inr (of_json h j))"

text \<open>\<^verbatim>\<open>JSON.parse(JSON.stringify(v))\<close>\<close>

definition json_clone :: "heap \<Rightarrow> val \<Rightarrow> js_error + heap \<times> val" where
  "json_clone h v = (case JSON_stringify h v of Inl e \<Rightarrow> Inl e | Inr t \<Rightarrow> JSON_parse h t)"

section \<open>The page, the chart library and the module state\<close>

datatype slot = BooksPerCategory | LoansOverTime | LoanStatus | Language

text \<open>
  A click listener the script adds to a chart canvas: the closure
  \<^verbatim>\<open>() => openModalForChart(<slot variable>, <title>)\<close>. It reads the slot variable when it
  runs. Every evaluation of the arrow function is a new function object, so
  \<^verbatim>\<open>addEventListener\<close> never finds it already registered and appends it.
\<close>

datatype listener = ExpandChart slot string

text \<open>
  An element of the page as \<^verbatim>\<open>document.getElementById\<close> finds it. The elements with the
  four canvas ids are canvas elements and the three statistics controls are form controls,
  whose \<^verbatim>\<open>value\<close> is a string.
\<close>

record element =
  textContent :: string
  innerHTML :: string
  el_value :: string
  clickListeners :: "listener list"

text \<open>
  The chart library keeps every instance ever constructed; an instance is bound to a canvas,
  holds the configuration it was given (by reference), and is live until \<^verbatim>\<open>destroy()\<close>.
  The library is taken at its most permissive: \<^verbatim>\<open>new Chart\<close> never refuses a canvas and
  never throws.
\<close>

datatype canvas = PageCanvas string | ModalCanvas

record chart =
  canvas :: canvas
  chart_type :: val
  chart_data :: val
  chart_options :: val
  alive :: bool

type_synonym chart_ref = nat

text \<open>The modal subtree \<^verbatim>\<open>ensureModal\<close> builds: the overlay's \<^verbatim>\<open>style.display\<close> and the
  text of its title element.\<close>

record modal_shell =
  modal_display :: string
  modal_title :: string

text \<open>
  The module-level variables of the script, the store, the page, the chart library and the
  console. The last three fields belong to the browser: how it prints a number for the
  user's locale, how it prints a number in \<^verbatim>\<open>String(n)\<close>, and whether a text converts to a
  number greater than zero.
\<close>

record state =
  statsApiUrl :: string
  activityApiUrl :: string
  booksPerCategoryChart :: "chart_ref option"
  loansOverTimeChart :: "chart_ref option"
  loanStatusChart :: "chart_ref option"
  languageChart :: "chart_ref option"
  modal :: "modal_shell option"
  modalChartInstance :: "chart_ref option"
  heap :: heap
  dom :: "string \<rightharpoonup> element"
  charts :: "chart list"
  console :: "(string \<times> js_error) list"
  toLocaleString :: "rat \<Rightarrow> string"
  numberToString :: "rat \<Rightarrow> string"
  textIsPositive :: "string \<Rightarrow> bool"

text \<open>The state when the script has been loaded into a page (lines 10 to 26).\<close>

definition loaded ::
  "(string \<rightharpoonup> element) \<Rightarrow> (rat \<Rightarrow> string) \<Rightarrow> (rat \<Rightarrow> string) \<Rightarrow> (string \<Rightarrow> bool) \<Rightarrow> state" where
  "loaded page fmt nt pos =
     \<lparr> statsApiUrl = [], activityApiUrl = [],
       booksPerCategoryChart = None, loansOverTimeChart = None,
       loanStatusChart = None, languageChart = None,
       modal = None, modalChartInstance = None,
       heap = [], dom = page, charts = [], console = [],
       toLocaleString = fmt, numberToString = nt, textIsPositive = pos \<rparr>"

text \<open>\<^verbatim>\<open>init\<close> stores the two URLs; the loads it then starts are the functions below.\<close>

definition init :: "state \<Rightarrow> string \<Rightarrow> string \<Rightarrow> state" where
  "init st statsUrl activityUrl = st\<lparr>statsApiUrl := statsUrl, activityApiUrl := activityUrl\<rparr>"

definition slot_chart :: "state \<Rightarrow> slot \<Rightarrow> chart_ref option" where
  "slot_chart st s =
     (case s of
        BooksPerCategory \<Rightarrow> booksPerCategoryChart st
      | LoansOverTime \<Rightarrow> loansOverTimeChart st
      | LoanStatus \<Rightarrow> loanStatusChart st
      | Language \<Rightarrow> languageChart st)"

definition slot_id :: "slot \<Rightarrow> string" where
  "slot_id s =
     (case s of
        BooksPerCategory \<Rightarrow> ''booksPerCategoryChart''
      | LoansOverTime \<Rightarrow> ''loansOverTimeChart''
      | LoanStatus \<Rightarrow> ''loanStatusChart''
      | Language \<Rightarrow> ''languageChart'')"

subsection \<open>The chart library\<close>

text \<open>\<^verbatim>\<open>new Chart(ctx, {type, data, options})\<close>: a new live instance, known by its index.\<close>

definition new_Chart :: "state \<Rightarrow> canvas \<Rightarrow> val \<Rightarrow> val \<Rightarrow> val \<Rightarrow> state \<times> chart_ref" where
  "new_Chart st c ty d opts =
     (st\<lparr>charts := charts st @
          [\<lparr>canvas = c, chart_type = ty, chart_data = d, chart_options = opts, alive = True\<rparr>]\<rparr>,
      length (charts st))"

definition destroy :: "state \<Rightarrow> chart_ref \<Rightarrow> state" where
  "destroy st c =
     (if c < length (charts st)
      then st\<lparr>charts := (charts st)[c := (charts st ! c)\<lparr>alive := False\<rparr>]\<rparr>
      else st)"

text \<open>The live instances bound to a canvas.\<close>

definition live_on :: "state \<Rightarrow> canvas \<Rightarrow> chart_ref list" where
  "live_on st c =
     filter (\<lambda>i. alive (charts st ! i) \<and> canvas (charts st ! i) = c) [0..<length (charts st)]"

subsection \<open>The console\<close>

definition console_error :: "state \<Rightarrow> string \<Rightarrow> js_error \<Rightarrow> state" where
  "console_error st msg e = st\<lparr>console := console st @ [(msg, e)]\<rparr>"

section \<open>fetchJSON\<close>

text \<open>
  What \<^verbatim>\<open>fetch\<close> settles with. A response has its status, the value of its
  \<^verbatim>\<open>content-type\<close> header (\<open>None\<close> when \<^verbatim>\<open>headers.get\<close> returns null), its body text,
  and what the browser's JSON parser makes of that body (\<open>None\<close> when \<^verbatim>\<open>response.json()\<close>
  rejects).
\<close>

record response =
  status :: nat
  content_type :: "string option"
  body_text :: string
  body_json :: "json option"

datatype fetch_outcome =
    NetworkFailure
  | Response response

text \<open>\<^verbatim>\<open>response.ok\<close>: the status is in the range 200 to 299.\<close>

definition ok :: "response \<Rightarrow> bool" where
  "ok r = (200 \<le> status r \<and> status r \<le> 299)"

text \<open>\<^verbatim>\<open>response.headers.get('content-type') || ''\<close>\<close>

definition contentType :: "response \<Rightarrow> string" where
  "contentType r = (case content_type r of None \<Rightarrow> [] | Some c \<Rightarrow> c)"

definition unexpected_message :: "response \<Rightarrow> string" where
  "unexpected_message r =
     ''Unexpected response ('' @ show_nat (status r) @ ''): '' @ take 200 (body_text r) @ ''...''"

text \<open>
  The promise \<^verbatim>\<open>fetchJSON(url)\<close> returns, by what the request settled with: \<open>Inr\<close> the
  parsed body when it fulfils, \<open>Inl\<close> the error when it rejects. A request that does not
  complete rejects with the TypeError of \<^verbatim>\<open>fetch\<close>.
\<close>

definition fetchJSON :: "fetch_outcome \<Rightarrow> js_error + json" where
  "fetchJSON out =
     (case out of
        NetworkFailure \<Rightarrow> Inl TypeError
      | Response r \<Rightarrow>
          if \<not> ok r \<or> \<not> str_includes (contentType r) ''application/json''
          then Inl (Error (unexpected_message r))
          else (case body_json r of None \<Rightarrow> Inl SyntaxError | Some j \<Rightarrow> Inr j))"

section \<open>Summary counters\<close>

text \<open>\<^verbatim>\<open>updateElement(id, value)\<close>\<close>

definition updateElement :: "state \<Rightarrow> string \<Rightarrow> val \<Rightarrow> state" where
  "updateElement st i v =
     (case dom st i of
        None \<Rightarrow> st
      | Some el \<Rightarrow>
          st\<lparr>dom := (dom st)(i \<mapsto>
            el\<lparr>textContent :=
                  (case v of VNum n \<Rightarrow> toLocaleString st n | _ \<Rightarrow> dom_string (numberToString st) (heap st) v)\<rparr>)\<rparr>)"

text \<open>\<^verbatim>\<open>v.k1.k2\<close>\<close>

definition get_path :: "heap \<Rightarrow> val \<Rightarrow> string \<Rightarrow> string \<Rightarrow> js_error + val" where
  "get_path h v k1 k2 = (case get_prop h v k1 of Inl e \<Rightarrow> Inl e | Inr w \<Rightarrow> get_prop h w k2)"

text \<open>
  A handler that can throw returns the state it leaves and the exception, if one leaves it.
  The fulfilment handler of \<^verbatim>\<open>loadDashboardStats\<close>:
\<close>

definition loadDashboardStats_then :: "state \<Rightarrow> val \<Rightarrow> state \<times> js_error option" where
  "loadDashboardStats_then st data =
     (case get_path (heap st) data ''basic'' ''total_books'' of
        Inl e \<Rightarrow> (st, Some e)
      | Inr v1 \<Rightarrow>
     let st1 = updateElement st ''books-count'' v1 in
     (case get_path (heap st1) data ''basic'' ''total_users'' of
        Inl e \<Rightarrow> (st1, Some e)
      | Inr v2 \<Rightarrow>
     let st2 = updateElement st1 ''users-count'' v2 in
     (case get_path (heap st2) data ''requests'' ''pending'' of
        Inl e \<Rightarrow> (st2, Some e)
      | Inr v3 \<Rightarrow>
     let st3 = updateElement st2 ''pending-requests'' v3 in
     (case get_path (heap st3) data ''loans'' ''overdue'' of
        Inl e \<Rightarrow> (st3, Some e)
      | Inr v4 \<Rightarrow> (updateElement st3 ''overdue-loans'' v4, None)))))"

definition counter_ids :: "string list" where
  "counter_ids = [''books-count'', ''users-count'', ''pending-requests'', ''overdue-loans'']"

text \<open>The rejection handler.\<close>

definition loadDashboardStats_catch :: "state \<Rightarrow> js_error \<Rightarrow> state" where
  "loadDashboardStats_catch st e =
     foldl (\<lambda>s i. updateElement s i (VStr ''-''))
       (console_error st ''Error loading stats:'' e) counter_ids"

text \<open>
  \<^verbatim>\<open>loadDashboardStats()\<close> up to the settling of its promise chain, by what the request to
  \<^verbatim>\<open>config.statsApiUrl\<close> settled with. The rejection handler also receives what the
  fulfilment handler throws.
\<close>

definition loadDashboardStats :: "state \<Rightarrow> fetch_outcome \<Rightarrow> state" where
  "loadDashboardStats st out =
     (case fetchJSON out of
        Inl e \<Rightarrow> loadDashboardStats_catch st e
      | Inr j \<Rightarrow>
          (case of_json (heap st) j of (h, data) \<Rightarrow>
             (case loadDashboardStats_then (st\<lparr>heap := h\<rparr>) data of
                (st1, None) \<Rightarrow> st1
              | (st1, Some e) \<Rightarrow> loadDashboardStats_catch st1 e)))"

section \<open>Recent activity\<close>

text \<open>What \<^verbatim>\<open>innerHTML\<close> gives back for a text node: \<^verbatim>\<open>&\<close>, \<^verbatim>\<open><\<close>, \<^verbatim>\<open>>\<close> and the
  no-break space are escaped.\<close>

definition escape_char :: "char \<Rightarrow> string" where
  "escape_char c =
     (if c = CHR ''&'' then ''&amp;''
      else if c = CHR ''<'' then ''&lt;''
      else if c = CHR ''>'' then ''&gt;''
      else if c = CHR 0xA0 then ''&nbsp;''
      else [c])"

definition escapeHtml :: "(rat \<Rightarrow> string) \<Rightarrow> heap \<Rightarrow> val \<Rightarrow> string" where
  "escapeHtml nt h text = concat (map escape_char (dom_string nt h text))"

text \<open>First error of a list of results, or all the values.\<close>

fun collect :: "(js_error + 'a) list \<Rightarrow> js_error + 'a list" where
  "collect [] = Inr []"
| "collect (Inl e # rs) = Inl e"
| "collect (Inr x # rs) = (case collect rs of Inl e \<Rightarrow> Inl e | Inr xs \<Rightarrow> Inr (x # xs))"

text \<open>The template of one activity entry.\<close>

definition activity_item :: "(rat \<Rightarrow> string) \<Rightarrow> heap \<Rightarrow> val \<Rightarrow> js_error + string" where
  \<open>activity_item nt h activity =
     (case get_prop h activity ''message'' of Inl e \<Rightarrow> Inl e | Inr message \<Rightarrow>
     (case get_prop h activity ''details'' of Inl e \<Rightarrow> Inl e | Inr details \<Rightarrow>
     (case get_prop h activity ''ago'' of Inl e \<Rightarrow> Inl e | Inr ago \<Rightarrow>
        Inr (''\<newline>                        <div class="activity-item">\<newline>                            <div>\<newline>                                <strong>''
             @ escapeHtml nt h message @
             ''</strong>\<newline>                                <br><small>''
             @ escapeHtml nt h details @
             ''</small>\<newline>                            </div>\<newline>                            <div class="activity-time">''
             @ escapeHtml nt h ago @
             ''</div>\<newline>                        </div>\<newline>                    ''))))\<close>

text \<open>\<^verbatim>\<open>x > 0\<close>\<close>

definition gt_zero :: "state \<Rightarrow> val \<Rightarrow> bool" where
  "gt_zero st v =
     (case v of
        VNum n \<Rightarrow> 0 < n
      | VBool b \<Rightarrow> b
      | VUndefined \<Rightarrow> False
      | VNull \<Rightarrow> False
      | _ \<Rightarrow> textIsPositive st (to_string (numberToString st) (heap st) v))"

text \<open>\<^verbatim>\<open>data.activities.map(...).join('')\<close>: only an array has \<^verbatim>\<open>map\<close>.\<close>

definition activities_html :: "(rat \<Rightarrow> string) \<Rightarrow> heap \<Rightarrow> val \<Rightarrow> js_error + string" where
  "activities_html nt h acts =
     (case acts of
        VRef a \<Rightarrow>
          (if length h \<le> a then Inl TypeError
           else (case h ! a of
                   Arr xs ps \<Rightarrow>
                     (case collect (map (activity_item nt h) xs) of
                        Inl e \<Rightarrow> Inl e
                      | Inr items \<Rightarrow> Inr (concat items))
                 | Obj ps \<Rightarrow> Inl TypeError))
      | _ \<Rightarrow> Inl TypeError)"

definition set_innerHTML :: "state \<Rightarrow> string \<Rightarrow> string \<Rightarrow> state" where
  "set_innerHTML st i html =
     (case dom st i of
        None \<Rightarrow> st
      | Some el \<Rightarrow> st\<lparr>dom := (dom st)(i \<mapsto> el\<lparr>innerHTML := html\<rparr>)\<rparr>)"

definition loadRecentActivity_then :: "state \<Rightarrow> val \<Rightarrow> state \<times> js_error option" where
  "loadRecentActivity_then st data =
     (case dom st ''recent-activity-list'' of
        None \<Rightarrow> (st, None)
      | Some activityList \<Rightarrow>
          (case get_prop (heap st) data ''activities'' of
             Inl e \<Rightarrow> (st, Some e)
           | Inr acts \<Rightarrow>
               (case (if truthy acts then get_prop (heap st) acts ''length'' else Inr VUndefined) of
                  Inl e \<Rightarrow> (st, Some e)
                | Inr len \<Rightarrow>
                    if truthy acts \<and> gt_zero st len
                    then (case activities_html (numberToString st) (heap st) acts of
                            Inl e \<Rightarrow> (st, Some e)
                          | Inr html \<Rightarrow> (set_innerHTML st ''recent-activity-list'' html, None))
                    else (set_innerHTML st ''recent-activity-list'' ''<p>No recent activity</p>'',
                          None))))"

definition loadRecentActivity_catch :: "state \<Rightarrow> js_error \<Rightarrow> state" where
  "loadRecentActivity_catch st e =
     set_innerHTML (console_error st ''Error loading activity:'' e)
       ''recent-activity-list'' ''<p>Error loading recent activity</p>''"

text \<open>\<^verbatim>\<open>loadRecentActivity()\<close> up to the settling of its promise chain.\<close>

definition loadRecentActivity :: "state \<Rightarrow> fetch_outcome \<Rightarrow> state" where
  "loadRecentActivity st out =
     (case fetchJSON out of
        Inl e \<Rightarrow> loadRecentActivity_catch st e
      | Inr j \<Rightarrow>
          (case of_json (heap st) j of (h, data) \<Rightarrow>
             (case loadRecentActivity_then (st\<lparr>heap := h\<rparr>) data of
                (st1, None) \<Rightarrow> st1
              | (st1, Some e) \<Rightarrow> loadRecentActivity_catch st1 e)))"


section \<open>Statistics request\<close>

text \<open>
  \<^verbatim>\<open>URLSearchParams\<close>: an ordered list of name-value pairs. \<^verbatim>\<open>set\<close> replaces the first
  pair of that name and drops the others, or appends. \<^verbatim>\<open>toString\<close> writes the pairs in
  the form-urlencoded way: letters, digits and \<^verbatim>\<open>*-._\<close> stay, a space becomes \<^verbatim>\<open>+\<close>,
  every other byte of the UTF-8 encoding becomes \<^verbatim>\<open>%XX\<close>.
\<close>

type_synonym params = "(string \<times> string) list"

fun params_set :: "params \<Rightarrow> string \<Rightarrow> string \<Rightarrow> params" where
  "params_set [] k v = [(k, v)]"
| "params_set (p # ps) k v =
     (if fst p = k then (k, v) # filter (\<lambda>q. fst q \<noteq> k) ps else p # params_set ps k v)"

definition params_has :: "params \<Rightarrow> string \<Rightarrow> bool" where
  "params_has ps k = (k \<in> set (map fst ps))"

definition params_get :: "params \<Rightarrow> string \<Rightarrow> string option" where
  "params_get ps k = map_of ps k"

definition hex_digit :: "nat \<Rightarrow> char" where
  "hex_digit d = (if d < 10 then char_of (48 + d) else char_of (55 + d))"

definition form_plain :: "char \<Rightarrow> bool" where
  "form_plain c =
     (let n = (of_char c :: nat) in
        (48 \<le> n \<and> n \<le> 57) \<or> (65 \<le> n \<and> n \<le> 90) \<or> (97 \<le> n \<and> n \<le> 122)
        \<or> c \<in> set ''*-._'')"

definition percent :: "nat \<Rightarrow> string" where
  "percent b = [CHR ''%'', hex_digit (b div 16), hex_digit (b mod 16)]"

definition form_encode_char :: "char \<Rightarrow> string" where
  "form_encode_char c =
     (let n = (of_char c :: nat) in
        if form_plain c then [c]
        else if c = CHR '' '' then ''+''
        else if n < 128 then percent n
        else percent (192 + n div 64) @ percent (128 + n mod 64))"

definition form_encode :: "string \<Rightarrow> string" where
  "form_encode s = concat (map form_encode_char s)"

fun params_toString :: "params \<Rightarrow> string" where
  "params_toString [] = []"
| "params_toString [p] = form_encode (fst p) @ ''='' @ form_encode (snd p)"
| "params_toString (p # q # ps) =
     form_encode (fst p) @ ''='' @ form_encode (snd p) @ ''&'' @ params_toString (q # ps)"

text \<open>
  The parameters \<^verbatim>\<open>loadBookStats\<close> derives from the controls; \<open>None\<close> when the period or
  the year control is missing and the function returns at once. Without a month control the
  month is the number 1, which \<^verbatim>\<open>set\<close> stores as the text \<^verbatim>\<open>1\<close>.
\<close>

definition stats_params :: "state \<Rightarrow> params option" where
  "stats_params st =
     (case dom st ''stats-period'' of
        None \<Rightarrow> None
      | Some periodEl \<Rightarrow>
          (case dom st ''stats-year'' of
             None \<Rightarrow> None
           | Some yearEl \<Rightarrow>
               let period = el_value periodEl;
                   y = el_value yearEl;
                   m = (case dom st ''stats-month'' of
                          Some monthEl \<Rightarrow> el_value monthEl
                        | None \<Rightarrow> show_nat 1);
                   params = [(''period'', period), (''year'', y)]
               in Some (if period \<noteq> ''year'' then params_set params ''month'' m else params)))"

text \<open>The URL \<^verbatim>\<open>loadBookStats\<close> fetches, if it fetches.\<close>

definition loadBookStats_url :: "state \<Rightarrow> string option" where
  "loadBookStats_url st =
     (case stats_params st of
        None \<Rightarrow> None
      | Some params \<Rightarrow> Some (statsApiUrl st @ ''?'' @ params_toString params))"

section \<open>Rendering the four charts\<close>

definition base_colors :: "string list" where
  "base_colors =
     [''#007cba'', ''#00a8e8'', ''#17a2b8'', ''#28a745'', ''#20c997'',
      ''#6f42c1'', ''#6610f2'', ''#e83e8c'', ''#fd7e14'', ''#ffc107'']"

definition buildBarColors :: "nat \<Rightarrow> string list" where
  "buildBarColors n = map (\<lambda>i. base_colors ! (i mod length base_colors)) [0..<n]"

text \<open>\<^verbatim>\<open>v || []\<close>\<close>

definition or_empty_array :: "heap \<Rightarrow> val \<Rightarrow> heap \<times> val" where
  "or_empty_array h v = (if truthy v then (h, v) else alloc h (Arr [] []))"

text \<open>\<^verbatim>\<open>v.slice(0, n)\<close>: a new array with the first \<open>n\<close> elements of an array, the first
  \<open>n\<close> code units of a string; nothing else the payload can hold has a \<^verbatim>\<open>slice\<close> method.\<close>

definition slice0 :: "heap \<Rightarrow> val \<Rightarrow> nat \<Rightarrow> js_error + heap \<times> val" where
  "slice0 h v n =
     (case v of
        VRef a \<Rightarrow>
          (if length h \<le> a then Inl TypeError
           else (case h ! a of
                   Arr xs ps \<Rightarrow> Inr (alloc h (Arr (take n xs) []))
                 | Obj ps \<Rightarrow> Inl TypeError))
      | VStr s \<Rightarrow> Inr (h, VStr (take n s))
      | _ \<Rightarrow> Inl TypeError)"

text \<open>\<^verbatim>\<open>v.map(x => x.k)\<close>: a new array; only an array has \<^verbatim>\<open>map\<close>.\<close>

definition map_prop :: "heap \<Rightarrow> val \<Rightarrow> string \<Rightarrow> js_error + heap \<times> val" where
  "map_prop h v k =
     (case v of
        VRef a \<Rightarrow>
          (if length h \<le> a then Inl TypeError
           else (case h ! a of
                   Arr xs ps \<Rightarrow>
                     (case collect (map (\<lambda>x. get_prop h x k) xs) of
                        Inl e \<Rightarrow> Inl e
                      | Inr ys \<Rightarrow> Inr (alloc h (Arr ys [])))
                 | Obj ps \<Rightarrow> Inl TypeError))
      | _ \<Rightarrow> Inl TypeError)"

text \<open>The elements of an array (of anything else, none).\<close>

definition elements :: "heap \<Rightarrow> val \<Rightarrow> val list" where
  "elements h v =
     (case v of
        VRef a \<Rightarrow> (if length h \<le> a then [] else (case h ! a of Arr xs ps \<Rightarrow> xs | Obj ps \<Rightarrow> []))
      | _ \<Rightarrow> [])"

text \<open>\<^verbatim>\<open>buildBarColors(v.length)\<close>, called when \<open>v\<close> has been mapped and so is an array.\<close>

definition colors_for :: "heap \<Rightarrow> val \<Rightarrow> heap \<times> val" where
  "colors_for h v = alloc h (Arr (map VStr (buildBarColors (length (elements h v)))) [])"

text \<open>
  The labels, values and colours a chart is drawn from: \<^verbatim>\<open>key\<close> names the payload's
  dataset, \<open>limit\<close> is the bound of \<^verbatim>\<open>slice\<close> when the function slices. An exception
  leaves nothing reachable behind, so the store is returned only on success.
\<close>

definition dataset_arrays ::
  "heap \<Rightarrow> val \<Rightarrow> string \<Rightarrow> nat option \<Rightarrow> string \<Rightarrow> string \<Rightarrow> js_error + heap \<times> val \<times> val \<times> val" where
  "dataset_arrays h data key limit label_key value_key =
     (case get_prop h data key of Inl e \<Rightarrow> Inl e | Inr v \<Rightarrow>
     (case or_empty_array h v of (h1, src) \<Rightarrow>
     (case (case limit of None \<Rightarrow> Inr (h1, src) | Some n \<Rightarrow> slice0 h1 src n) of
        Inl e \<Rightarrow> Inl e
      | Inr (h2, rows) \<Rightarrow>
     (case map_prop h2 rows label_key of Inl e \<Rightarrow> Inl e | Inr (h3, labels) \<Rightarrow>
     (case map_prop h3 rows value_key of Inl e \<Rightarrow> Inl e | Inr (h4, vals) \<Rightarrow>
     (case colors_for h4 rows of (h5, colors) \<Rightarrow> Inr (h5, labels, vals, colors)))))))"

text \<open>The \<^verbatim>\<open>data\<close> object of a chart with one dataset.\<close>

definition chart_data_object ::
  "heap \<Rightarrow> val \<Rightarrow> (string \<times> val) list \<Rightarrow> heap \<times> val" where
  "chart_data_object h labels dataset =
     (case alloc h (Obj dataset) of (h1, ds) \<Rightarrow>
     (case alloc h1 (Arr [ds] []) of (h2, datasets) \<Rightarrow>
        alloc h2 (Obj [(''labels'', labels), (''datasets'', datasets)])))"

definition legend_bottom_options :: json where
  "legend_bottom_options =
     JObj [(''responsive'', JBool True),
           (''plugins'', JObj [(''legend'', JObj [(''position'', JStr ''bottom'')])])]"

definition no_legend_options :: json where
  "no_legend_options =
     JObj [(''responsive'', JBool True),
           (''plugins'', JObj [(''legend'', JObj [(''display'', JBool False)])]),
           (''scales'', JObj [(''y'', JObj [(''beginAtZero'', JBool True), (''precision'', JNum 0)])])]"

definition set_slot :: "state \<Rightarrow> slot \<Rightarrow> chart_ref option \<Rightarrow> state" where
  "set_slot st s c =
     (case s of
        BooksPerCategory \<Rightarrow> st\<lparr>booksPerCategoryChart := c\<rparr>
      | LoansOverTime \<Rightarrow> st\<lparr>loansOverTimeChart := c\<rparr>
      | LoanStatus \<Rightarrow> st\<lparr>loanStatusChart := c\<rparr>
      | Language \<Rightarrow> st\<lparr>languageChart := c\<rparr>)"

definition addClickListener :: "state \<Rightarrow> string \<Rightarrow> listener \<Rightarrow> state" where
  "addClickListener st i l =
     (case dom st i of
        None \<Rightarrow> st
      | Some el \<Rightarrow> st\<lparr>dom := (dom st)(i \<mapsto> el\<lparr>clickListeners := clickListeners el @ [l]\<rparr>)\<rparr>)"

text \<open>
  The part the four render functions share once the canvas is found: destroy the chart the
  slot variable holds, construct the new one on the canvas, store it in the slot variable,
  and add the click listener to the canvas.
\<close>

definition mount :: "state \<Rightarrow> slot \<Rightarrow> string \<Rightarrow> val \<Rightarrow> val \<Rightarrow> string \<Rightarrow> state" where
  "mount st s ty d opts title =
     (let st1 = (case slot_chart st s of None \<Rightarrow> st | Some old \<Rightarrow> destroy st old) in
      case new_Chart st1 (PageCanvas (slot_id s)) (VStr ty) d opts of
        (st2, c) \<Rightarrow> addClickListener (set_slot st2 s (Some c)) (slot_id s) (ExpandChart s title))"

text \<open>
  The three charts drawn from a list of rows. The labels of datasets and the titles are
  Vietnamese in the source and are written here without their diacritics.
\<close>

definition render_rows ::
  "state \<Rightarrow> val \<Rightarrow> slot \<Rightarrow> string \<Rightarrow> nat option \<Rightarrow> string \<Rightarrow> string \<Rightarrow>
   string \<Rightarrow> string \<Rightarrow> json \<Rightarrow> string \<Rightarrow> state \<times> js_error option" where
  "render_rows st data s key limit label_key value_key ty ds_label opts title =
     (case dataset_arrays (heap st) data key limit label_key value_key of
        Inl e \<Rightarrow> (st, Some e)
      | Inr (h, labels, vals, colors) \<Rightarrow>
          (case dom st (slot_id s) of
             None \<Rightarrow> (st\<lparr>heap := h\<rparr>, None)
           | Some ctx \<Rightarrow>
               (case chart_data_object h labels
                       [(''label'', VStr ds_label), (''data'', vals), (''backgroundColor'', colors)] of
                  (h1, d) \<Rightarrow>
               (case of_json h1 opts of
                  (h2, options) \<Rightarrow>
                    (mount (st\<lparr>heap := h2\<rparr>) s ty d options title, None)))))"

definition renderBooksPerCategoryChart :: "state \<Rightarrow> val \<Rightarrow> state \<times> js_error option" where
  "renderBooksPerCategoryChart st data =
     render_rows st data BooksPerCategory ''category_book_counts'' (Some 20) ''name''
       ''total_books'' ''doughnut'' ''Sach'' legend_bottom_options
       ''So luong sach theo the loai''"

definition renderLoanStatusChart :: "state \<Rightarrow> val \<Rightarrow> state \<times> js_error option" where
  "renderLoanStatusChart st data =
     render_rows st data LoanStatus ''status_distribution'' None ''status''
       ''total'' ''doughnut'' ''Yeu cau'' legend_bottom_options
       ''Trang thai yeu cau muon sach''"

definition renderLanguageChart :: "state \<Rightarrow> val \<Rightarrow> state \<times> js_error option" where
  "renderLanguageChart st data =
     render_rows st data Language ''language_distribution'' (Some 12) ''language''
       ''total'' ''bar'' ''So luong sach'' no_legend_options
       ''Ngon ngu sach trong thu vien''"

text \<open>The line chart takes the label and value arrays of the payload as they are.\<close>

definition renderLoansOverTimeChart :: "state \<Rightarrow> val \<Rightarrow> state \<times> js_error option" where
  "renderLoansOverTimeChart st data =
     (case get_prop (heap st) data ''time_series'' of
        Inl e \<Rightarrow> (st, Some e)
      | Inr v \<Rightarrow>
          (case (if truthy v then (heap st, v)
                 else of_json (heap st) (JObj [(''labels'', JArr []), (''values'', JArr [])])) of
             (h, ts) \<Rightarrow>
          (case dom st (slot_id LoansOverTime) of
             None \<Rightarrow> (st\<lparr>heap := h\<rparr>, None)
           | Some ctx \<Rightarrow>
               (case get_prop h ts ''labels'' of Inl e \<Rightarrow> (st\<lparr>heap := h\<rparr>, Some e) | Inr labels \<Rightarrow>
               (case get_prop h ts ''values'' of Inl e \<Rightarrow> (st\<lparr>heap := h\<rparr>, Some e) | Inr vals \<Rightarrow>
               (case chart_data_object h labels
                       [(''label'', VStr ''Luot muon''), (''data'', vals),
                        (''borderColor'', VStr ''#007cba''),
                        (''backgroundColor'', VStr ''rgba(0,124,186,0.1)''),
                        (''fill'', VBool True), (''tension'', VNum (2 / 10))] of
                  (h1, d) \<Rightarrow>
               (case of_json h1 no_legend_options of
                  (h2, options) \<Rightarrow>
                    (mount (st\<lparr>heap := h2\<rparr>) LoansOverTime ''line'' d options
                       ''Xu huong muon theo thoi gian'', None))))))))"

text \<open>\<^verbatim>\<open>renderCharts(data)\<close>: the four in turn; an exception ends the run.\<close>

definition and_then ::
  "state \<times> js_error option \<Rightarrow> (state \<Rightarrow> state \<times> js_error option) \<Rightarrow> state \<times> js_error option" where
  "and_then r f = (case r of (st, None) \<Rightarrow> f st | (st, Some e) \<Rightarrow> (st, Some e))"

definition renderCharts :: "state \<Rightarrow> val \<Rightarrow> state \<times> js_error option" where
  "renderCharts st data =
     and_then (and_then (and_then (renderBooksPerCategoryChart st data)
       (\<lambda>s. renderLoansOverTimeChart s data))
       (\<lambda>s. renderLoanStatusChart s data))
       (\<lambda>s. renderLanguageChart s data)"

text \<open>
  \<^verbatim>\<open>loadBookStats()\<close> from the arrival of what its request settled with: the body is
  parsed whatever the status and content type are, the charts are rendered, and an exception
  on the way is written to the console.
\<close>

definition loadBookStats_settled :: "state \<Rightarrow> fetch_outcome \<Rightarrow> state" where
  "loadBookStats_settled st out =
     (case out of
        NetworkFailure \<Rightarrow> console_error st ''Error loading book stats:'' TypeError
      | Response r \<Rightarrow>
          (case body_json r of
             None \<Rightarrow> console_error st ''Error loading book stats:'' SyntaxError
           | Some j \<Rightarrow>
               (case of_json (heap st) j of (h, data) \<Rightarrow>
                  (case renderCharts (st\<lparr>heap := h\<rparr>) data of
                     (st1, None) \<Rightarrow> st1
                   | (st1, Some e) \<Rightarrow> console_error st1 ''Error loading book stats:'' e))))"


section \<open>The modal\<close>

text \<open>\<^verbatim>\<open>ensureModal()\<close>: the subtree is built once; its style has no display yet and its
  title reads as the markup has it.\<close>

definition ensureModal :: "state \<Rightarrow> state" where
  "ensureModal st =
     (case modal st of
        Some m \<Rightarrow> st
      | None \<Rightarrow> st\<lparr>modal := Some \<lparr>modal_display = [], modal_title = ''Bieu do''\<rparr>\<rparr>)"

text \<open>\<^verbatim>\<open>closeModal\<close>, the listener of the close button and of a click on the overlay
  itself. It exists once \<^verbatim>\<open>ensureModal\<close> has built the modal.\<close>

definition closeModal :: "state \<Rightarrow> state" where
  "closeModal st =
     (let st1 = st\<lparr>modal := map_option (\<lambda>m. m\<lparr>modal_display := ''none''\<rparr>) (modal st)\<rparr> in
      case modalChartInstance st1 of
        None \<Rightarrow> st1
      | Some c \<Rightarrow> (destroy st1 c)\<lparr>modalChartInstance := None\<rparr>)"

definition zoom_options :: json where
  "zoom_options =
     JObj [(''zoom'', JObj [(''wheel'', JObj [(''enabled'', JBool True)]),
                           (''pinch'', JObj [(''enabled'', JBool True)]),
                           (''drag'', JObj [(''enabled'', JBool True)]),
                           (''mode'', JStr ''xy'')]),
           (''pan'', JObj [(''enabled'', JBool True),
                          (''mode'', JStr ''xy''),
                          (''modifierKey'', JStr ''shift'')])]"

text \<open>\<^verbatim>\<open>target.k = target.k || <literal>\<close>: the property is read, the literal is built if
  the property is falsy, and the property is written.\<close>

definition default_prop :: "heap \<Rightarrow> val \<Rightarrow> string \<Rightarrow> json \<Rightarrow> heap \<times> js_error option" where
  "default_prop h target k lit =
     (case get_prop h target k of
        Inl e \<Rightarrow> (h, Some e)
      | Inr v \<Rightarrow>
          (case (if truthy v then (h, v) else of_json h lit) of
             (h1, w) \<Rightarrow>
               (case set_prop h1 target k w of Inl e \<Rightarrow> (h1, Some e) | Inr h2 \<Rightarrow> (h2, None))))"

text \<open>
  Lines 446 to 461: the zoom and pan options are merged into the cloned options. The store
  is returned with the exception, since properties may have been written before it.
\<close>

definition enable_zoom :: "heap \<Rightarrow> val \<Rightarrow> heap \<times> js_error option" where
  "enable_zoom h options =
     (case default_prop h options ''plugins'' (JObj []) of
        (h1, Some e) \<Rightarrow> (h1, Some e)
      | (h1, None) \<Rightarrow>
     (case get_prop h1 options ''plugins'' of
        Inl e \<Rightarrow> (h1, Some e)
      | Inr plugins \<Rightarrow>
     (case default_prop h1 plugins ''legend'' (JObj [(''position'', JStr ''top'')]) of
        (h2, Some e) \<Rightarrow> (h2, Some e)
      | (h2, None) \<Rightarrow>
     (case get_prop h2 options ''plugins'' of
        Inl e \<Rightarrow> (h2, Some e)
      | Inr plugins2 \<Rightarrow>
     (case of_json h2 zoom_options of
        (h3, zoom) \<Rightarrow>
     (case set_prop h3 plugins2 ''zoom'' zoom of
        Inl e \<Rightarrow> (h3, Some e)
      | Inr h4 \<Rightarrow>
     (case set_prop h4 options ''maintainAspectRatio'' (VBool False) of
        Inl e \<Rightarrow> (h4, Some e)
      | Inr h5 \<Rightarrow> (h5, None))))))))"

definition set_modal_title :: "state \<Rightarrow> string \<Rightarrow> state" where
  "set_modal_title st t = st\<lparr>modal := map_option (\<lambda>m. m\<lparr>modal_title := t\<rparr>) (modal st)\<rparr>"

definition set_modal_display :: "state \<Rightarrow> string \<Rightarrow> state" where
  "set_modal_display st d = st\<lparr>modal := map_option (\<lambda>m. m\<lparr>modal_display := d\<rparr>) (modal st)\<rparr>"

text \<open>
  \<^verbatim>\<open>openModalForChart(sourceChart, titleText)\<close>; \<open>sourceChart\<close> is what the slot variable
  held when the listener ran.
\<close>

definition openModalForChart ::
  "state \<Rightarrow> chart_ref option \<Rightarrow> string \<Rightarrow> state \<times> js_error option" where
  "openModalForChart st sourceChart titleText =
     (let st1 = set_modal_title (ensureModal st)
                  (if titleText = [] then ''Bieu do'' else titleText) in
      case sourceChart of
        None \<Rightarrow> (st1, Some TypeError)
      | Some c \<Rightarrow>
          if length (charts st1) \<le> c then (st1, Some TypeError)
          else
            let src = charts st1 ! c in
            (case json_clone (heap st1) (chart_data src) of
               Inl e \<Rightarrow> (st1, Some e)
             | Inr (h1, dataClone) \<Rightarrow>
            (case (if truthy (chart_options src) then (h1, chart_options src)
                   else alloc h1 (Obj [])) of
               (h2, srcOpts) \<Rightarrow>
            (case json_clone h2 srcOpts of
               Inl e \<Rightarrow> (st1\<lparr>heap := h2\<rparr>, Some e)
             | Inr (h3, options) \<Rightarrow>
            (case enable_zoom h3 options of
               (h4, Some e) \<Rightarrow> (st1\<lparr>heap := h4\<rparr>, Some e)
             | (h4, None) \<Rightarrow>
                 let st2 = (case modalChartInstance st1 of
                              None \<Rightarrow> st1
                            | Some old \<Rightarrow> destroy st1 old) in
                 (case new_Chart (st2\<lparr>heap := h4\<rparr>) ModalCanvas (chart_type src) dataClone options of
                    (st3, m) \<Rightarrow>
                      (set_modal_display (st3\<lparr>modalChartInstance := Some m\<rparr>) ''flex'', None)))))))"

text \<open>
  A click on the element with id \<open>i\<close>: its click listeners run in the order they were added;
  an exception leaving a listener is reported on the console and the next listener runs.
\<close>

definition run_listener :: "state \<Rightarrow> listener \<Rightarrow> state" where
  "run_listener st l =
     (case l of
        ExpandChart s title \<Rightarrow>
          (case openModalForChart st (slot_chart st s) title of
             (st1, None) \<Rightarrow> st1
           | (st1, Some e) \<Rightarrow> console_error st1 ''Uncaught'' e))"

definition click :: "state \<Rightarrow> string \<Rightarrow> state" where
  "click st i =
     (case dom st i of
        None \<Rightarrow> st
      | Some el \<Rightarrow> foldl run_listener st (clickListeners el))"


section \<open>Runs of handlers and the single-instance invariant\<close>

text \<open>The render function of a slot.\<close>

definition render_slot :: "slot \<Rightarrow> state \<Rightarrow> val \<Rightarrow> state \<times> js_error option" where
  "render_slot s =
     (case s of
        BooksPerCategory \<Rightarrow> renderBooksPerCategoryChart
      | LoansOverTime \<Rightarrow> renderLoansOverTimeChart
      | LoanStatus \<Rightarrow> renderLoanStatusChart
      | Language \<Rightarrow> renderLanguageChart)"

text \<open>Successive runs of a render function on the payloads of a list, each run completing;
  \<open>None\<close> when one of them throws.\<close>

fun rerender ::
  "(state \<Rightarrow> val \<Rightarrow> state \<times> js_error option) \<Rightarrow> state \<Rightarrow> val list \<Rightarrow> state option" where
  "rerender f st [] = Some st"
| "rerender f st (d # ds) =
     (case f st d of (st1, None) \<Rightarrow> rerender f st1 ds | (st1, Some e) \<Rightarrow> None)"

text \<open>Successive statistics requests settling, whatever they settle with.\<close>

definition reloads :: "state \<Rightarrow> fetch_outcome list \<Rightarrow> state" where
  "reloads st outs = foldl loadBookStats_settled st outs"

text \<open>The state after lines 436 to 438 of \<^verbatim>\<open>openModalForChart\<close>: the modal exists and has
  its title.\<close>

definition titled :: "state \<Rightarrow> string \<Rightarrow> state" where
  "titled st t = set_modal_title (ensureModal st) (if t = [] then ''Bieu do'' else t)"

text \<open>The state after lines 463 to 471: the chart the modal variable held is destroyed, the
  new one is constructed on the modal canvas and stored, and the overlay is shown.\<close>

definition swapped :: "state \<Rightarrow> heap \<Rightarrow> val \<Rightarrow> val \<Rightarrow> val \<Rightarrow> state" where
  "swapped st1 h ty d opts =
     set_modal_display
       ((fst (new_Chart ((case modalChartInstance st1 of None \<Rightarrow> st1 | Some old \<Rightarrow> destroy st1 old)
                          \<lparr>heap := h\<rparr>) ModalCanvas ty d opts))
          \<lparr>modalChartInstance := Some (length (charts st1))\<rparr>) ''flex''"

text \<open>
  What the event loop runs after the script is initialised: the request of one of the three
  loads settles, an element of the page is clicked, or the modal is closed by its button or
  by a click on its overlay (a listener that exists once the modal is built).
\<close>

datatype event =
    StatsSettled fetch_outcome
  | SummarySettled fetch_outcome
  | ActivitySettled fetch_outcome
  | Clicked string
  | CloseRequested

definition handle :: "state \<Rightarrow> event \<Rightarrow> state" where
  "handle st ev =
     (case ev of
        StatsSettled out \<Rightarrow> loadBookStats_settled st out
      | SummarySettled out \<Rightarrow> loadDashboardStats st out
      | ActivitySettled out \<Rightarrow> loadRecentActivity st out
      | Clicked i \<Rightarrow> click st i
      | CloseRequested \<Rightarrow> (case modal st of None \<Rightarrow> st | Some m \<Rightarrow> closeModal st))"

definition run :: "state \<Rightarrow> event list \<Rightarrow> state" where
  "run st evs = foldl handle st evs"

text \<open>The live instances on a canvas are the one chart the variable holds, or none when the
  variable is null.\<close>

definition holds_only :: "state \<Rightarrow> canvas \<Rightarrow> chart_ref option \<Rightarrow> bool" where
  "holds_only st c v = (live_on st c = (case v of None \<Rightarrow> [] | Some i \<Rightarrow> [i]))"

definition single_instances :: "state \<Rightarrow> bool" where
  "single_instances st =
     (holds_only st (PageCanvas (slot_id BooksPerCategory)) (booksPerCategoryChart st)
      \<and> holds_only st (PageCanvas (slot_id LoansOverTime)) (loansOverTimeChart st)
      \<and> holds_only st (PageCanvas (slot_id LoanStatus)) (loanStatusChart st)
      \<and> holds_only st (PageCanvas (slot_id Language)) (languageChart st)
      \<and> holds_only st ModalCanvas (modalChartInstance st))"

definition live_count :: "state \<Rightarrow> canvas \<Rightarrow> nat" where
  "live_count st c = length (live_on st c)"

text \<open>The number of click listeners on the element with id \<open>i\<close>.\<close>

definition click_listener_count :: "state \<Rightarrow> string \<Rightarrow> nat" where
  "click_listener_count st i =
     (case dom st i of None \<Rightarrow> 0 | Some el \<Rightarrow> length (clickListeners el))"

section \<open>Reading a chart's data\<close>

text \<open>A value whose address, if it is one, is an object of the store.\<close>

definition in_store :: "heap \<Rightarrow> val \<Rightarrow> bool" where
  "in_store h v = (case v of VRef a \<Rightarrow> a < length h | _ \<Rightarrow> True)"

text \<open>\<^verbatim>\<open>v.k\<close> where it does not throw.\<close>

definition read_prop :: "heap \<Rightarrow> val \<Rightarrow> string \<Rightarrow> val" where
  "read_prop h v k = (case get_prop h v k of Inl e \<Rightarrow> VUndefined | Inr w \<Rightarrow> w)"

text \<open>The labels a chart is drawn with, \<^verbatim>\<open>chart.config.data.labels\<close>, and the values of its
  first dataset, \<^verbatim>\<open>chart.config.data.datasets[0].data\<close>.\<close>

definition chart_labels :: "state \<Rightarrow> chart_ref \<Rightarrow> val list" where
  "chart_labels st c =
     elements (heap st) (read_prop (heap st) (chart_data (charts st ! c)) ''labels'')"

definition chart_values :: "state \<Rightarrow> chart_ref \<Rightarrow> val list" where
  "chart_values st c =
     (case elements (heap st) (read_prop (heap st) (chart_data (charts st ! c)) ''datasets'') of
        [] \<Rightarrow> []
      | ds # rest \<Rightarrow> elements (heap st) (read_prop (heap st) ds ''data''))"

text \<open>The text an element shows, and its markup; \<open>None\<close> when the page has no such element.\<close>

definition displayed :: "state \<Rightarrow> string \<Rightarrow> string option" where
  "displayed st i = map_option textContent (dom st i)"


text \<open>The payload of a JSON reply, built in the store: the store after, and the value.\<close>

definition parsed_store :: "state \<Rightarrow> json \<Rightarrow> state" where
  "parsed_store st j = st\<lparr>heap := fst (of_json (heap st) j)\<rparr>"

definition parsed_value :: "state \<Rightarrow> json \<Rightarrow> val" where
  "parsed_value st j = snd (of_json (heap st) j)"

text \<open>\<^verbatim>\<open>undefined\<close> or \<^verbatim>\<open>null\<close>, of which no property can be read.\<close>

definition nullish :: "val \<Rightarrow> bool" where
  "nullish v = (v = VUndefined \<or> v = VNull)"




section \<open>Sharing between objects\<close>


text \<open>A value that, if it is an address, is the address of an object of the store made at
  address \<open>n\<close> or later.\<close>

definition made_since :: "nat \<Rightarrow> heap \<Rightarrow> val \<Rightarrow> bool" where
  "made_since n h v = (case v of VRef b \<Rightarrow> n \<le> b \<and> b < length h | _ \<Rightarrow> True)"




text \<open>The store \<open>h'\<close> is a later store of \<open>h\<close> in which every object below address \<open>n\<close> is as
  it was.\<close>

definition keeps_below :: "nat \<Rightarrow> heap \<Rightarrow> heap \<Rightarrow> bool" where
  "keeps_below n h h' = (length h \<le> length h' \<and> list_all (\<lambda>b. h' ! b = h ! b) [0..<n])"


section \<open>Example pages\<close>

text \<open>An element holding the value \<open>v\<close>, with no text and no listeners.\<close>

definition control :: "string \<Rightarrow> element" where
  "control v = \<lparr>textContent = [], innerHTML = [], el_value = v, clickListeners = []\<rparr>"

text \<open>The script loaded into the page with the listed elements, in a browser that prints
  every number as \<^verbatim>\<open>#\<close> and finds no text positive.\<close>

definition loaded_in :: "(string \<times> element) list \<Rightarrow> state" where
  "loaded_in els = loaded (map_of els) (\<lambda>n. ''#'') (\<lambda>n. ''#'') (\<lambda>s. False)"

definition controls_page :: "string \<Rightarrow> string \<Rightarrow> string \<Rightarrow> state" where
  "controls_page period y m =
     init (loaded_in [(''stats-period'', control period), (''stats-year'', control y),
                      (''stats-month'', control m)])
       ''/api/stats'' ''/api/activity''"

definition controls_page_no_month :: "string \<Rightarrow> string \<Rightarrow> state" where
  "controls_page_no_month period y =
     init (loaded_in [(''stats-period'', control period), (''stats-year'', control y)])
       ''/api/stats'' ''/api/activity''"


text \<open>A page with the four chart canvases and the four counters.\<close>

definition dashboard_page :: state where
  "dashboard_page =
     init (loaded_in [(''booksPerCategoryChart'', control []), (''loansOverTimeChart'', control []),
                      (''loanStatusChart'', control []), (''languageChart'', control []),
                      (''books-count'', control []), (''users-count'', control []),
                      (''pending-requests'', control []), (''overdue-loans'', control []),
                      (''recent-activity-list'', control [])])
       ''/api/stats'' ''/api/activity''"

definition json_reply :: "json \<Rightarrow> fetch_outcome" where
  "json_reply j =
     Response \<lparr>status = 200, content_type = Some ''application/json'',
               body_text = [], body_json = Some j\<rparr>"

definition one_category :: json where
  "one_category =
     JObj [(''category_book_counts'',
            JArr [JObj [(''name'', JStr ''Novel''), (''total_books'', JNum 3)]])]"

text \<open>The page with one statistics payload parsed into the store, and that payload.\<close>

definition page_with_payload :: state where
  "page_with_payload = dashboard_page\<lparr>heap := fst (of_json [] one_category)\<rparr>"

definition payload :: val where
  "payload = snd (of_json [] one_category)"

text \<open>The page after one statistics reply has been rendered, and after its first chart has
  then been opened in the modal.\<close>

definition rendered_page :: state where
  "rendered_page = reloads dashboard_page [json_reply one_category]"

definition expanded_page :: state where
  "expanded_page = fst (openModalForChart rendered_page (Some 0) ''Books'')"

text \<open>A statistics payload with 25 categories and 15 languages, numbered from 0, parsed into
  the store of the page.\<close>

definition numbered_rows :: "string \<Rightarrow> string \<Rightarrow> nat \<Rightarrow> json" where
  "numbered_rows label_key value_key n =
     JArr (map (\<lambda>i. JObj [(label_key, JStr (show_nat i)), (value_key, JNum (of_nat i))]) [0..<n])"

definition many_rows :: json where
  "many_rows =
     JObj [(''category_book_counts'', numbered_rows ''name'' ''total_books'' 25),
           (''language_distribution'', numbered_rows ''language'' ''total'' 15)]"

definition many_rows_page :: state where
  "many_rows_page = dashboard_page\<lparr>heap := fst (of_json [] many_rows)\<rparr>"

definition many_rows_payload :: val where
  "many_rows_payload = snd (of_json [] many_rows)"

text \<open>A summary payload with the three objects but without \<^verbatim>\<open>basic.total_books\<close>.\<close>

definition no_total_books :: json where
  "no_total_books =
     JObj [(''basic'', JObj [(''total_users'', JNum 5)]),
           (''requests'', JObj [(''pending'', JNum 1)]),
           (''loans'', JObj [(''overdue'', JNum 2)])]"

definition server_error_page :: response where
  "server_error_page =
     \<lparr>status = 500, content_type = Some ''text/html'',
      body_text = ''<h1>Server Error</h1>'', body_json = None\<rparr>"

definition truncated_json_reply :: response where
  "truncated_json_reply =
     \<lparr>status = 200, content_type = Some ''application/json'',
      body_text = ''{'', body_json = None\<rparr>"

section \<open>Properties of fetchJSON\<close>

text \<open>
  Claim C4, as the code has it. \<^verbatim>\<open>fetchJSON\<close> fulfils with the parsed body exactly when
  the status is a success, the content type contains \<^verbatim>\<open>application/json\<close> and the body
  parses. A response whose status is not a success or whose content type is not JSON is
  rejected with the error \<^verbatim>\<open>Unexpected response (<status>): <excerpt>...\<close>, the excerpt
  being the first 200 code units of the body at most. A body that does not parse is
  rejected with the parser's SyntaxError, and a request that does not complete with the
  TypeError of \<^verbatim>\<open>fetch\<close>; these two carry neither status nor excerpt.
\<close>

theorem fetchJSON_result:
  "(\<forall>j. fetchJSON out = Inr j \<longleftrightarrow>
        (\<exists>r. out = Response r \<and> ok r \<and> str_includes (contentType r) ''application/json''
             \<and> body_json r = Some j))
   \<and> (\<forall>r. out = Response r \<and> \<not> (ok r \<and> str_includes (contentType r) ''application/json'') \<longrightarrow>
          fetchJSON out =
            Inl (Error (''Unexpected response ('' @ show_nat (status r) @ ''): ''
                        @ take 200 (body_text r) @ ''...''))
          \<and> length (take 200 (body_text r)) \<le> 200)
   \<and> (\<forall>r. out = Response r \<and> ok r \<and> str_includes (contentType r) ''application/json''
          \<and> body_json r = None \<longrightarrow> fetchJSON out = Inl SyntaxError)
   \<and> (out = NetworkFailure \<longrightarrow> fetchJSON out = Inl TypeError)"
  by (cases out) (auto simp: fetchJSON_def unexpected_message_def split: option.splits)

theorem fetchJSON_result_witness:
  "fetchJSON (Response server_error_page) =
     Inl (Error ''Unexpected response (500): <h1>Server Error</h1>...'')"
proof -
  have h: "\<not> (ok server_error_page
              \<and> str_includes (contentType server_error_page) ''application/json'')"
    by (simp add: ok_def server_error_page_def)
  have s: "show_nat (status server_error_page) = ''500''"
    by code_simp
  from fetchJSON_result [of "Response server_error_page"] h
  have "fetchJSON (Response server_error_page) =
          Inl (Error (''Unexpected response ('' @ show_nat (status server_error_page) @ ''): ''
                      @ take 200 (body_text server_error_page) @ ''...''))"
    by blast
  then show ?thesis
    unfolding s by (simp add: server_error_page_def)
qed

text \<open>A reply with status 200 and a JSON content type whose body is cut short: the status
  is a success and the content type is JSON, yet \<^verbatim>\<open>fetchJSON\<close> rejects, and the error
  carries no status.\<close>

theorem fetchJSON_iff_counterexample:
  \<open>ok truncated_json_reply
   \<and> str_includes (contentType truncated_json_reply) ''application/json''
   \<and> fetchJSON (Response truncated_json_reply) = Inl SyntaxError\<close>
  by (simp add: truncated_json_reply_def ok_def contentType_def fetchJSON_def)

section \<open>Properties of the statistics request\<close>

lemma params_toString_2:
  "params_toString [(a, b), (c, d)] =
     form_encode a @ ''='' @ form_encode b @ ''&'' @ form_encode c @ ''='' @ form_encode d"
  by simp

lemma params_toString_3:
  "params_toString [(a, b), (c, d), (e, f)] =
     form_encode a @ ''='' @ form_encode b @ ''&'' @ form_encode c @ ''='' @ form_encode d
     @ ''&'' @ form_encode e @ ''='' @ form_encode f"
  by simp

lemma show_nat_1: "show_nat (Suc 0) = ''1''"
  by code_simp

lemma form_encode_period: "form_encode ''period'' = ''period''"
  by code_simp

lemma form_encode_year: "form_encode ''year'' = ''year''"
  by code_simp

lemma form_encode_month: "form_encode ''month'' = ''month''"
  by code_simp

text \<open>
  Claim C5, as the code has it. When the period and the year control exist,
  \<^verbatim>\<open>loadBookStats\<close> requests the statistics URL with a query string that always has the
  parameters \<^verbatim>\<open>period\<close> and \<^verbatim>\<open>year\<close>, holding the values of the two controls, and has
  the parameter \<^verbatim>\<open>month\<close> exactly when the period is not \<^verbatim>\<open>year\<close> (so for \<^verbatim>\<open>month\<close>,
  and not for \<^verbatim>\<open>year\<close>). The month is the value of the month control as it stands, or 1
  without that control; nothing checks that it is an integer from 1 to 12.
\<close>

theorem stats_query:
  assumes "dom st ''stats-period'' = Some periodEl"
    and "dom st ''stats-year'' = Some yearEl"
  shows "\<exists>params m.
           stats_params st = Some params
         \<and> loadBookStats_url st = Some (statsApiUrl st @ ''?'' @ params_toString params)
         \<and> params_get params ''period'' = Some (el_value periodEl)
         \<and> params_get params ''year'' = Some (el_value yearEl)
         \<and> (params_has params ''month'' \<longleftrightarrow> el_value periodEl \<noteq> ''year'')
         \<and> m = (case dom st ''stats-month'' of Some monthEl \<Rightarrow> el_value monthEl | None \<Rightarrow> ''1'')
         \<and> (el_value periodEl \<noteq> ''year'' \<longrightarrow> params_get params ''month'' = Some m)
         \<and> params_toString params =
             ''period='' @ form_encode (el_value periodEl)
             @ ''&year='' @ form_encode (el_value yearEl)
             @ (if el_value periodEl \<noteq> ''year'' then ''&month='' @ form_encode m else [])"
  using assms
  by (auto simp: stats_params_def loadBookStats_url_def Let_def params_get_def params_has_def
        show_nat_1 form_encode_period form_encode_year form_encode_month
      split: option.splits)

theorem stats_query_witness:
  "loadBookStats_url (controls_page ''year'' ''2024'' ''7'') = Some ''/api/stats?period=year&year=2024''
   \<and> loadBookStats_url (controls_page ''month'' ''2024'' ''7'')
       = Some ''/api/stats?period=month&year=2024&month=7''"
proof -
  have p1: "dom (controls_page ''year'' ''2024'' ''7'') ''stats-period'' = Some (control ''year'')"
    and y1: "dom (controls_page ''year'' ''2024'' ''7'') ''stats-year'' = Some (control ''2024'')"
    and p2: "dom (controls_page ''month'' ''2024'' ''7'') ''stats-period'' = Some (control ''month'')"
    and y2: "dom (controls_page ''month'' ''2024'' ''7'') ''stats-year'' = Some (control ''2024'')"
    by (simp_all add: controls_page_def loaded_in_def loaded_def init_def)
  have m: "dom (controls_page ''month'' ''2024'' ''7'') ''stats-month'' = Some (control ''7'')"
    by (simp add: controls_page_def loaded_in_def loaded_def init_def)
  have u: "statsApiUrl (controls_page ''year'' ''2024'' ''7'') = ''/api/stats''"
    "statsApiUrl (controls_page ''month'' ''2024'' ''7'') = ''/api/stats''"
    by (simp_all add: controls_page_def loaded_in_def loaded_def init_def)
  have e: "form_encode ''year'' = ''year''" "form_encode ''month'' = ''month''"
    "form_encode ''2024'' = ''2024''" "form_encode ''7'' = ''7''"
    by code_simp+
  from stats_query [OF p1 y1] have a: "loadBookStats_url (controls_page ''year'' ''2024'' ''7'')
      = Some ''/api/stats?period=year&year=2024''"
    by (auto simp: u e control_def)
  from stats_query [OF p2 y2] have b: "loadBookStats_url (controls_page ''month'' ''2024'' ''7'')
      = Some ''/api/stats?period=month&year=2024&month=7''"
    by (auto simp: u e m control_def)
  from a b show ?thesis by simp
qed

text \<open>With the month control holding 13 the request carries \<^verbatim>\<open>month=13\<close>, and with a period
  that is neither \<^verbatim>\<open>year\<close> nor \<^verbatim>\<open>month\<close> it carries a month all the same.\<close>

theorem stats_query_month_counterexample:
  "loadBookStats_url (controls_page ''month'' ''2024'' ''13'')
     = Some ''/api/stats?period=month&year=2024&month=13''
   \<and> loadBookStats_url (controls_page ''week'' ''2024'' ''7'')
     = Some ''/api/stats?period=week&year=2024&month=7''"
  by code_simp

text \<open>
  Claim C10. When the period and the year control exist, the month control does not, and the
  period is not \<^verbatim>\<open>year\<close>, \<^verbatim>\<open>loadBookStats\<close> still makes its request, and the query string
  ends with \<^verbatim>\<open>month=1\<close>.
\<close>

theorem month_control_absent:
  assumes "dom st ''stats-period'' = Some periodEl"
    and "dom st ''stats-year'' = Some yearEl"
    and "dom st ''stats-month'' = None"
    and "el_value periodEl \<noteq> ''year''"
  shows "stats_params st
           = Some [(''period'', el_value periodEl), (''year'', el_value yearEl), (''month'', ''1'')]
       \<and> loadBookStats_url st
           = Some (statsApiUrl st @ ''?period='' @ form_encode (el_value periodEl)
                   @ ''&year='' @ form_encode (el_value yearEl) @ ''&month=1'')"
proof -
  have one: "form_encode ''1'' = ''1''"
    by code_simp
  show ?thesis
    using assms
    by (simp add: stats_params_def loadBookStats_url_def Let_def show_nat_1
          form_encode_period form_encode_year form_encode_month one)
qed

theorem month_control_absent_witness:
  "loadBookStats_url (controls_page_no_month ''month'' ''2024'')
     = Some ''/api/stats?period=month&year=2024&month=1''"
proof -
  have p: "dom (controls_page_no_month ''month'' ''2024'') ''stats-period'' = Some (control ''month'')"
    and y: "dom (controls_page_no_month ''month'' ''2024'') ''stats-year'' = Some (control ''2024'')"
    and m: "dom (controls_page_no_month ''month'' ''2024'') ''stats-month'' = None"
    by (simp_all add: controls_page_no_month_def loaded_in_def loaded_def init_def)
  have n: "el_value (control ''month'') \<noteq> ''year''"
    by (simp add: control_def)
  have u: "statsApiUrl (controls_page_no_month ''month'' ''2024'') = ''/api/stats''"
    by (simp add: controls_page_no_month_def loaded_in_def loaded_def init_def)
  have e: "form_encode ''month'' = ''month''" "form_encode ''2024'' = ''2024''"
    by code_simp+
  from month_control_absent [OF p y m n] show ?thesis
    by (simp add: u e control_def)
qed

section \<open>Live instances under destroy, construction and mounting\<close>

lemma live_on_destroy:
  "live_on (destroy st c) cv = filter (\<lambda>i. i \<noteq> c) (live_on st cv)"
  by (auto simp: live_on_def destroy_def nth_list_update intro!: filter_cong)

lemma live_on_new_Chart:
  "live_on (fst (new_Chart st cv ty d opts)) cv' =
     live_on st cv' @ (if cv = cv' then [length (charts st)] else [])"
  by (auto simp: live_on_def new_Chart_def nth_append intro!: filter_cong)

lemma live_on_charts: "charts st' = charts st \<Longrightarrow> live_on st' c = live_on st c"
  by (simp add: live_on_def)

lemma live_on_canvas: "i \<in> set (live_on st c) \<Longrightarrow> canvas (charts st ! i) = c"
  by (auto simp: live_on_def)

lemma slot_id_inj: "slot_id s = slot_id s' \<longleftrightarrow> s = s'"
  by (cases s; cases s') (simp_all add: slot_id_def)

lemma charts_set_slot: "charts (set_slot st s c) = charts st"
  by (cases s) (simp_all add: set_slot_def)

lemma charts_addClickListener: "charts (addClickListener st i l) = charts st"
  by (simp add: addClickListener_def split: option.splits)

lemma slot_chart_set_slot:
  "slot_chart (set_slot st s c) s' = (if s' = s then c else slot_chart st s')"
  by (cases s; cases s') (simp_all add: set_slot_def slot_chart_def)

lemma slot_chart_addClickListener: "slot_chart (addClickListener st i l) s = slot_chart st s"
  by (cases s) (simp_all add: addClickListener_def slot_chart_def split: option.splits)

lemma slot_chart_destroy: "slot_chart (destroy st c) s = slot_chart st s"
  by (cases s) (simp_all add: destroy_def slot_chart_def)

lemma slot_chart_new_Chart: "slot_chart (fst (new_Chart st cv ty d opts)) s = slot_chart st s"
  by (cases s) (simp_all add: new_Chart_def slot_chart_def)

lemma length_charts_destroy: "length (charts (destroy st c)) = length (charts st)"
  by (simp add: destroy_def)

lemma mount_slot_chart:
  "slot_chart (mount st s ty d opts title) s' =
     (if s' = s then Some (length (charts st)) else slot_chart st s')"
  by (simp add: mount_def Let_def slot_chart_addClickListener slot_chart_set_slot
        slot_chart_destroy length_charts_destroy new_Chart_def split: option.splits prod.splits)
    (auto simp: slot_chart_def destroy_def split: slot.splits)

lemma mount_live_on:
  assumes "holds_only st (PageCanvas (slot_id s)) (slot_chart st s)"
  shows "live_on (mount st s ty d opts title) cv =
           (if cv = PageCanvas (slot_id s) then [length (charts st)] else live_on st cv)"
proof (cases "slot_chart st s")
  case None
  with assms have e: "live_on st (PageCanvas (slot_id s)) = []"
    by (simp add: holds_only_def)
  have "live_on (mount st s ty d opts title) cv
          = live_on (fst (new_Chart st (PageCanvas (slot_id s)) (VStr ty) d opts)) cv"
    using None
    by (auto simp: mount_def Let_def charts_addClickListener charts_set_slot
          split: prod.splits intro!: live_on_charts)
  then show ?thesis
    using e by (auto simp: live_on_new_Chart)
next
  case (Some old)
  with assms have e: "live_on st (PageCanvas (slot_id s)) = [old]"
    by (simp add: holds_only_def)
  then have c: "canvas (charts st ! old) = PageCanvas (slot_id s)"
    using live_on_canvas [of old st "PageCanvas (slot_id s)"] by simp
  have n: "cv \<noteq> PageCanvas (slot_id s) \<Longrightarrow> old \<notin> set (live_on st cv)"
    using c live_on_canvas [of old st cv] by auto
  have "live_on (mount st s ty d opts title) cv
          = live_on (fst (new_Chart (destroy st old) (PageCanvas (slot_id s)) (VStr ty) d opts)) cv"
    using Some
    by (auto simp: mount_def Let_def charts_addClickListener charts_set_slot
          split: prod.splits intro!: live_on_charts)
  then show ?thesis
    using e n
    by (auto simp: live_on_new_Chart live_on_destroy length_charts_destroy filter_id_conv)
qed

lemma mount_modalChartInstance:
  "modalChartInstance (mount st s ty d opts title) = modalChartInstance st"
  by (cases s)
    (auto simp: mount_def Let_def addClickListener_def set_slot_def new_Chart_def destroy_def
      split: option.splits prod.splits)

lemma single_instances_slots:
  "single_instances st \<longleftrightarrow>
     (\<forall>s. holds_only st (PageCanvas (slot_id s)) (slot_chart st s))
     \<and> holds_only st ModalCanvas (modalChartInstance st)"
proof -
  have "(\<forall>s. P s) \<longleftrightarrow> P BooksPerCategory \<and> P LoansOverTime \<and> P LoanStatus \<and> P Language" for P
    by (metis slot.exhaust)
  then show ?thesis
    by (simp add: single_instances_def slot_chart_def)
qed

lemma holds_only_heap [simp]: "holds_only (st\<lparr>heap := h\<rparr>) c v = holds_only st c v"
  by (simp add: holds_only_def live_on_def)

lemma slot_chart_heap [simp]: "slot_chart (st\<lparr>heap := h\<rparr>) s = slot_chart st s"
  by (cases s) (simp_all add: slot_chart_def)

lemma single_instances_heap [simp]: "single_instances (st\<lparr>heap := h\<rparr>) = single_instances st"
  by (simp add: single_instances_slots)

lemma single_instances_mount:
  assumes "single_instances st"
  shows "single_instances (mount st s ty d opts title)"
  using assms
  by (auto simp: single_instances_slots holds_only_def mount_live_on mount_slot_chart
        mount_modalChartInstance slot_id_inj)

section \<open>What a render function leaves\<close>

lemma heap_same [simp]: "st\<lparr>heap := heap st\<rparr> = (st :: state)"
  by simp

lemma render_rows_cases:
  "(\<exists>h e. render_rows st data s key limit lk vk ty dl opts title = (st\<lparr>heap := h\<rparr>, Some e))
   \<or> (dom st (slot_id s) = None
       \<and> (\<exists>h. render_rows st data s key limit lk vk ty dl opts title = (st\<lparr>heap := h\<rparr>, None)))
   \<or> (\<exists>el h d options. dom st (slot_id s) = Some el
       \<and> render_rows st data s key limit lk vk ty dl opts title
           = (mount (st\<lparr>heap := h\<rparr>) s ty d options title, None))"
proof (cases "dataset_arrays (heap st) data key limit lk vk")
  case (Inl e)
  then have "render_rows st data s key limit lk vk ty dl opts title = (st\<lparr>heap := heap st\<rparr>, Some e)"
    by (simp add: render_rows_def)
  then show ?thesis by blast
next
  case (Inr r)
  obtain h labels vals colors where r: "r = (h, labels, vals, colors)"
    by (cases r) auto
  show ?thesis
  proof (cases "dom st (slot_id s)")
    case None
    with Inr r show ?thesis
      by (auto simp: render_rows_def)
  next
    case (Some el)
    with Inr r show ?thesis
      by (auto simp: render_rows_def split: prod.splits)
  qed
qed

lemma ex_heap_same: "\<exists>h. (st :: state) = st\<lparr>heap := h\<rparr>"
  by (rule exI [of _ "heap st"]) simp

lemma renderLoansOverTimeChart_cases:
  "(\<exists>h e. renderLoansOverTimeChart st data = (st\<lparr>heap := h\<rparr>, Some e))
   \<or> (dom st (slot_id LoansOverTime) = None
       \<and> (\<exists>h. renderLoansOverTimeChart st data = (st\<lparr>heap := h\<rparr>, None)))
   \<or> (\<exists>el h d options. dom st (slot_id LoansOverTime) = Some el
       \<and> renderLoansOverTimeChart st data
           = (mount (st\<lparr>heap := h\<rparr>) LoansOverTime ''line'' d options
                ''Xu huong muon theo thoi gian'', None))"
proof (cases "get_prop (heap st) data ''time_series''")
  case (Inl e)
  then have "renderLoansOverTimeChart st data = (st\<lparr>heap := heap st\<rparr>, Some e)"
    by (simp add: renderLoansOverTimeChart_def)
  then show ?thesis by blast
next
  case (Inr v)
  obtain h ts where ts:
    "(if truthy v then (heap st, v)
      else of_json (heap st) (JObj [(''labels'', JArr []), (''values'', JArr [])])) = (h, ts)"
    by (cases "if truthy v then (heap st, v)
      else of_json (heap st) (JObj [(''labels'', JArr []), (''values'', JArr [])])") auto
  show ?thesis
  proof (cases "dom st (slot_id LoansOverTime)")
    case None
    with Inr ts have "renderLoansOverTimeChart st data = (st\<lparr>heap := h\<rparr>, None)"
      by (simp add: renderLoansOverTimeChart_def del: of_json.simps)
    with None show ?thesis by blast
  next
    case (Some el)
    show ?thesis
    proof (cases "get_prop h ts ''labels''")
      case (Inl e)
      with Inr ts Some have "renderLoansOverTimeChart st data = (st\<lparr>heap := h\<rparr>, Some e)"
        by (simp add: renderLoansOverTimeChart_def del: of_json.simps)
      then show ?thesis by blast
    next
      case labels: (Inr labels)
      show ?thesis
      proof (cases "get_prop h ts ''values''")
        case (Inl e)
        with Inr ts Some labels
        have "renderLoansOverTimeChart st data = (st\<lparr>heap := h\<rparr>, Some e)"
          by (simp add: renderLoansOverTimeChart_def del: of_json.simps)
        then show ?thesis by blast
      next
        case vals: (Inr vals)
        with Inr ts Some labels
        have "\<exists>h' d options. renderLoansOverTimeChart st data
                = (mount (st\<lparr>heap := h'\<rparr>) LoansOverTime ''line'' d options
                     ''Xu huong muon theo thoi gian'', None)"
          by (simp add: renderLoansOverTimeChart_def split: prod.splits del: of_json.simps) blast
        with Some show ?thesis by blast
      qed
    qed
  qed
qed

lemma render_slot_cases:
  "(\<exists>h e. render_slot s st data = (st\<lparr>heap := h\<rparr>, Some e))
   \<or> (dom st (slot_id s) = None \<and> (\<exists>h. render_slot s st data = (st\<lparr>heap := h\<rparr>, None)))
   \<or> (\<exists>el h ty d options title. dom st (slot_id s) = Some el
       \<and> render_slot s st data = (mount (st\<lparr>heap := h\<rparr>) s ty d options title, None))"
proof (cases s)
  case BooksPerCategory
  have eq: "render_slot BooksPerCategory = renderBooksPerCategoryChart"
    by (simp add: render_slot_def)
  show ?thesis
    unfolding BooksPerCategory eq renderBooksPerCategoryChart_def
    using render_rows_cases [of st data BooksPerCategory "''category_book_counts''" "Some 20"
          "''name''" "''total_books''" "''doughnut''" "''Sach''" legend_bottom_options
          "''So luong sach theo the loai''"] by blast
next
  case LoansOverTime
  have eq: "render_slot LoansOverTime = renderLoansOverTimeChart"
    by (simp add: render_slot_def)
  show ?thesis
    unfolding LoansOverTime eq
    using renderLoansOverTimeChart_cases [of st data] by blast
next
  case LoanStatus
  have eq: "render_slot LoanStatus = renderLoanStatusChart"
    by (simp add: render_slot_def)
  show ?thesis
    unfolding LoanStatus eq renderLoanStatusChart_def
    using render_rows_cases [of st data LoanStatus "''status_distribution''" None
          "''status''" "''total''" "''doughnut''" "''Yeu cau''" legend_bottom_options
          "''Trang thai yeu cau muon sach''"] by blast
next
  case Language
  have eq: "render_slot Language = renderLanguageChart"
    by (simp add: render_slot_def)
  show ?thesis
    unfolding Language eq renderLanguageChart_def
    using render_rows_cases [of st data Language "''language_distribution''" "Some 12"
          "''language''" "''total''" "''bar''" "''So luong sach''" no_legend_options
          "''Ngon ngu sach trong thu vien''"] by blast
qed

section \<open>The invariant under the three loads\<close>

lemma single_instances_frame:
  assumes "charts st' = charts st"
    and "booksPerCategoryChart st' = booksPerCategoryChart st"
    and "loansOverTimeChart st' = loansOverTimeChart st"
    and "loanStatusChart st' = loanStatusChart st"
    and "languageChart st' = languageChart st"
    and "modalChartInstance st' = modalChartInstance st"
  shows "single_instances st' = single_instances st"
  using assms by (simp add: single_instances_def holds_only_def live_on_def)

lemma single_instances_console_error [simp]:
  "single_instances (console_error st msg e) = single_instances st"
  by (rule single_instances_frame) (simp_all add: console_error_def)

lemma single_instances_updateElement [simp]:
  "single_instances (updateElement st i v) = single_instances st"
  by (rule single_instances_frame) (simp_all add: updateElement_def split: option.splits)

lemma single_instances_set_innerHTML [simp]:
  "single_instances (set_innerHTML st i html) = single_instances st"
  by (rule single_instances_frame) (simp_all add: set_innerHTML_def split: option.splits)

lemma single_instances_render_slot:
  assumes "single_instances st"
  shows "single_instances (fst (render_slot s st data))"
  using render_slot_cases [of s st data] assms
  by (auto simp: single_instances_mount)

lemma renderCharts_slots:
  "renderCharts st data =
     and_then (and_then (and_then (render_slot BooksPerCategory st data)
       (\<lambda>s. render_slot LoansOverTime s data))
       (\<lambda>s. render_slot LoanStatus s data))
       (\<lambda>s. render_slot Language s data)"
  by (simp add: renderCharts_def render_slot_def)

lemma single_instances_and_then:
  assumes "single_instances (fst r)"
    and "\<And>st. single_instances st \<Longrightarrow> single_instances (fst (f st))"
  shows "single_instances (fst (and_then r f))"
  using assms by (auto simp: and_then_def split: prod.splits option.splits)

lemma single_instances_renderCharts:
  assumes "single_instances st"
  shows "single_instances (fst (renderCharts st data))"
  unfolding renderCharts_slots
  by (intro single_instances_and_then single_instances_render_slot assms)

lemma single_instances_loadBookStats_settled:
  assumes "single_instances st"
  shows "single_instances (loadBookStats_settled st out)"
proof (cases out)
  case NetworkFailure
  with assms show ?thesis by (simp add: loadBookStats_settled_def)
next
  case (Response r)
  show ?thesis
  proof (cases "body_json r")
    case None
    with Response assms show ?thesis by (simp add: loadBookStats_settled_def)
  next
    case (Some j)
    obtain h data where hd: "of_json (heap st) j = (h, data)"
      by (cases "of_json (heap st) j") auto
    from assms have "single_instances (fst (renderCharts (st\<lparr>heap := h\<rparr>) data))"
      by (intro single_instances_renderCharts) simp
    with Response Some hd show ?thesis
      by (auto simp: loadBookStats_settled_def split: prod.splits option.splits)
  qed
qed

lemma single_instances_loadDashboardStats_then:
  assumes "single_instances st"
  shows "single_instances (fst (loadDashboardStats_then st data))"
  using assms by (simp add: loadDashboardStats_then_def Let_def split: sum.splits)

lemma single_instances_loadDashboardStats_catch:
  assumes "single_instances st"
  shows "single_instances (loadDashboardStats_catch st e)"
  using assms by (simp add: loadDashboardStats_catch_def counter_ids_def)

lemma single_instances_loadDashboardStats:
  assumes "single_instances st"
  shows "single_instances (loadDashboardStats st out)"
proof (cases "fetchJSON out")
  case (Inl e)
  with assms show ?thesis
    by (simp add: loadDashboardStats_def single_instances_loadDashboardStats_catch)
next
  case (Inr j)
  obtain h data where hd: "of_json (heap st) j = (h, data)"
    by (cases "of_json (heap st) j") auto
  from assms have "single_instances (fst (loadDashboardStats_then (st\<lparr>heap := h\<rparr>) data))"
    by (intro single_instances_loadDashboardStats_then) simp
  with Inr hd show ?thesis
    by (auto simp: loadDashboardStats_def single_instances_loadDashboardStats_catch
        split: prod.splits option.splits)
qed

lemma single_instances_loadRecentActivity_then:
  assumes "single_instances st"
  shows "single_instances (fst (loadRecentActivity_then st data))"
  using assms by (simp add: loadRecentActivity_then_def split: sum.splits option.splits)

lemma single_instances_loadRecentActivity:
  assumes "single_instances st"
  shows "single_instances (loadRecentActivity st out)"
proof (cases "fetchJSON out")
  case (Inl e)
  with assms show ?thesis
    by (simp add: loadRecentActivity_def loadRecentActivity_catch_def)
next
  case (Inr j)
  obtain h data where hd: "of_json (heap st) j = (h, data)"
    by (cases "of_json (heap st) j") auto
  from assms have "single_instances (fst (loadRecentActivity_then (st\<lparr>heap := h\<rparr>) data))"
    by (intro single_instances_loadRecentActivity_then) simp
  with Inr hd show ?thesis
    by (auto simp: loadRecentActivity_def loadRecentActivity_catch_def
        split: prod.splits option.splits)
qed

section \<open>What openModalForChart leaves\<close>

lemma titled_fields [simp]:
  "charts (titled st t) = charts st"
  "heap (titled st t) = heap st"
  "dom (titled st t) = dom st"
  "modalChartInstance (titled st t) = modalChartInstance st"
  "booksPerCategoryChart (titled st t) = booksPerCategoryChart st"
  "loansOverTimeChart (titled st t) = loansOverTimeChart st"
  "loanStatusChart (titled st t) = loanStatusChart st"
  "languageChart (titled st t) = languageChart st"
  "console (titled st t) = console st"
  by (simp_all add: titled_def set_modal_title_def ensureModal_def split: option.splits)

lemma titled_modal: "modal (titled st t) \<noteq> None"
  by (simp add: titled_def set_modal_title_def ensureModal_def split: option.splits)

lemma openModalForChart_cases:
  "(\<exists>h e. openModalForChart st src t = ((titled st t)\<lparr>heap := h\<rparr>, Some e))
   \<or> (\<exists>c h d opts. src = Some c \<and> c < length (charts st)
        \<and> openModalForChart st src t
            = (swapped (titled st t) h (chart_type (charts st ! c)) d opts, None))"
proof (cases src)
  case None
  then have "openModalForChart st src t = ((titled st t)\<lparr>heap := heap (titled st t)\<rparr>, Some TypeError)"
    by (simp add: openModalForChart_def titled_def Let_def)
  then show ?thesis by blast
next
  case (Some c)
  show ?thesis
  proof (cases "length (charts st) \<le> c")
    case True
    with Some have "openModalForChart st src t
        = ((titled st t)\<lparr>heap := heap (titled st t)\<rparr>, Some TypeError)"
      using titled_fields(1) [of st t]
      by (simp add: openModalForChart_def titled_def Let_def)
    then show ?thesis by blast
  next
    case False
    let ?st1 = "titled st t"
    let ?src = "charts st ! c"
    have unf: "openModalForChart st src t =
      (case json_clone (heap st) (chart_data ?src) of
               Inl e \<Rightarrow> (?st1, Some e)
             | Inr (h1, dataClone) \<Rightarrow>
            (case (if truthy (chart_options ?src) then (h1, chart_options ?src)
                   else alloc h1 (Obj [])) of
               (h2, srcOpts) \<Rightarrow>
            (case json_clone h2 srcOpts of
               Inl e \<Rightarrow> (?st1\<lparr>heap := h2\<rparr>, Some e)
             | Inr (h3, options) \<Rightarrow>
            (case enable_zoom h3 options of
               (h4, Some e) \<Rightarrow> (?st1\<lparr>heap := h4\<rparr>, Some e)
             | (h4, None) \<Rightarrow> (swapped ?st1 h4 (chart_type ?src) dataClone options, None)))))"
      using False Some titled_fields(1,2) [of st t]
      by (simp add: openModalForChart_def titled_def [symmetric] Let_def swapped_def new_Chart_def
            length_charts_destroy
          split: sum.splits prod.splits option.splits)
    show ?thesis
    proof (cases "json_clone (heap st) (chart_data ?src)")
      case (Inl e)
      with unf have "openModalForChart st src t = (?st1\<lparr>heap := heap ?st1\<rparr>, Some e)"
        by simp
      then show ?thesis by blast
    next
      case (Inr r1)
      obtain h1 dataClone where r1: "r1 = (h1, dataClone)" by (cases r1) auto
      obtain h2 srcOpts where so: "(if truthy (chart_options ?src) then (h1, chart_options ?src)
                   else alloc h1 (Obj [])) = (h2, srcOpts)"
        by (cases "if truthy (chart_options ?src) then (h1, chart_options ?src)
                   else alloc h1 (Obj [])") auto
      show ?thesis
      proof (cases "json_clone h2 srcOpts")
        case (Inl e)
        with unf Inr r1 so show ?thesis by auto
      next
        case r3: (Inr r3)
        obtain h3 options where r3': "r3 = (h3, options)" by (cases r3) auto
        obtain h4 r where ez: "enable_zoom h3 options = (h4, r)"
          by (cases "enable_zoom h3 options") auto
        show ?thesis
        proof (cases r)
          case None
          with unf Inr r1 so r3 r3' ez Some False show ?thesis
            by (auto simp del: titled_fields)
        next
          case (Some e)
          with unf Inr r1 so r3 r3' ez show ?thesis by auto
        qed
      qed
    qed
  qed
qed

section \<open>The invariant under the modal and under every event\<close>

lemma live_on_replace:
  assumes "holds_only st cv v"
  shows "live_on (fst (new_Chart ((case v of None \<Rightarrow> st | Some old \<Rightarrow> destroy st old)\<lparr>heap := h\<rparr>)
                     cv ty d opts)) cv'
         = (if cv' = cv then [length (charts st)] else live_on st cv')"
proof (cases v)
  case None
  with assms have e: "live_on st cv = []"
    by (simp add: holds_only_def)
  have "live_on (st\<lparr>heap := h\<rparr>) cv' = live_on st cv'" for cv'
    by (simp add: live_on_def)
  with e None show ?thesis
    by (auto simp: live_on_new_Chart)
next
  case (Some old)
  with assms have e: "live_on st cv = [old]"
    by (simp add: holds_only_def)
  then have c: "canvas (charts st ! old) = cv"
    using live_on_canvas [of old st cv] by simp
  have n: "cv' \<noteq> cv \<Longrightarrow> old \<notin> set (live_on st cv')"
    using c live_on_canvas [of old st cv'] by auto
  have "live_on ((destroy st old)\<lparr>heap := h\<rparr>) cv' = live_on (destroy st old) cv'" for cv'
    by (simp add: live_on_def)
  with e n Some show ?thesis
    by (auto simp: live_on_new_Chart live_on_destroy length_charts_destroy filter_id_conv)
qed

lemma live_on_set_modal_display [simp]:
  "live_on (set_modal_display st d) cv = live_on st cv"
  by (simp add: live_on_def set_modal_display_def)

lemma live_on_modalChartInstance_update [simp]:
  "live_on (st\<lparr>modalChartInstance := v\<rparr>) cv = live_on st cv"
  by (simp add: live_on_def)

lemma swapped_live_on:
  assumes "holds_only st ModalCanvas (modalChartInstance st)"
  shows "live_on (swapped st h ty d opts) cv
           = (if cv = ModalCanvas then [length (charts st)] else live_on st cv)"
  using live_on_replace [OF assms, of h ty d opts cv]
  by (simp add: swapped_def)

lemma swapped_fields [simp]:
  "modalChartInstance (swapped st h ty d opts) = Some (length (charts st))"
  "booksPerCategoryChart (swapped st h ty d opts) = booksPerCategoryChart st"
  "loansOverTimeChart (swapped st h ty d opts) = loansOverTimeChart st"
  "loanStatusChart (swapped st h ty d opts) = loanStatusChart st"
  "languageChart (swapped st h ty d opts) = languageChart st"
  "dom (swapped st h ty d opts) = dom st"
  "console (swapped st h ty d opts) = console st"
  by (simp_all add: swapped_def set_modal_display_def new_Chart_def destroy_def
      split: option.splits)

lemma swapped_modal:
  "modal (swapped st h ty d opts) = map_option (\<lambda>m. m\<lparr>modal_display := ''flex''\<rparr>) (modal st)"
  by (simp add: swapped_def set_modal_display_def new_Chart_def destroy_def
      split: option.splits)

lemma single_instances_titled [simp]: "single_instances (titled st t) = single_instances st"
  by (rule single_instances_frame) simp_all

lemma single_instances_swapped:
  assumes "single_instances st"
  shows "single_instances (swapped st h ty d opts)"
  using assms
  by (simp add: single_instances_def holds_only_def swapped_live_on)

lemma single_instances_openModalForChart:
  assumes "single_instances st"
  shows "single_instances (fst (openModalForChart st src t))"
  using openModalForChart_cases [of st src t] assms
  by (auto simp: single_instances_swapped)

lemma closeModal_live_on:
  assumes "holds_only st ModalCanvas (modalChartInstance st)"
  shows "live_on (closeModal st) cv = (if cv = ModalCanvas then [] else live_on st cv)"
proof (cases "modalChartInstance st")
  case None
  with assms show ?thesis
    by (auto simp: closeModal_def Let_def holds_only_def live_on_def)
next
  case (Some old)
  with assms have e: "live_on st ModalCanvas = [old]"
    by (simp add: holds_only_def)
  then have c: "canvas (charts st ! old) = ModalCanvas"
    using live_on_canvas [of old st ModalCanvas] by simp
  have n: "cv \<noteq> ModalCanvas \<Longrightarrow> old \<notin> set (live_on st cv)"
    using c live_on_canvas [of old st cv] by auto
  have m: "live_on (st\<lparr>modal := x\<rparr>) cv = live_on st cv" for x
    by (simp add: live_on_def)
  have "live_on (closeModal st) cv = live_on (destroy st old) cv"
    using Some by (simp add: closeModal_def Let_def live_on_def destroy_def)
  with e n show ?thesis
    by (auto simp: live_on_destroy filter_id_conv)
qed

lemma closeModal_fields [simp]:
  "modalChartInstance (closeModal st) = None"
  "booksPerCategoryChart (closeModal st) = booksPerCategoryChart st"
  "loansOverTimeChart (closeModal st) = loansOverTimeChart st"
  "loanStatusChart (closeModal st) = loanStatusChart st"
  "languageChart (closeModal st) = languageChart st"
  "dom (closeModal st) = dom st"
  "heap (closeModal st) = heap st"
  "modal (closeModal st) = map_option (\<lambda>m. m\<lparr>modal_display := ''none''\<rparr>) (modal st)"
  by (simp_all add: closeModal_def Let_def destroy_def split: option.splits)

lemma single_instances_closeModal:
  assumes "single_instances st"
  shows "single_instances (closeModal st)"
  using assms
  by (simp add: single_instances_def holds_only_def closeModal_live_on)

lemma single_instances_run_listener:
  assumes "single_instances st"
  shows "single_instances (run_listener st l)"
proof (cases l)
  case (ExpandChart s title)
  from assms have "single_instances (fst (openModalForChart st (slot_chart st s) title))"
    by (rule single_instances_openModalForChart)
  with ExpandChart show ?thesis
    by (auto simp: run_listener_def split: prod.splits option.splits)
qed

lemma single_instances_foldl:
  assumes "\<And>st x. P st \<Longrightarrow> P (f st x)" and "P st"
  shows "P (foldl f st xs)"
  using assms(2) by (induction xs arbitrary: st) (simp_all add: assms(1))

lemma single_instances_click:
  assumes "single_instances st"
  shows "single_instances (click st i)"
  using assms
  by (auto simp: click_def split: option.splits
      intro!: single_instances_foldl [where P = single_instances] single_instances_run_listener)

lemma single_instances_handle:
  assumes "single_instances st"
  shows "single_instances (handle st ev)"
  using assms
  by (cases ev)
    (simp_all add: handle_def single_instances_loadBookStats_settled
      single_instances_loadDashboardStats single_instances_loadRecentActivity
      single_instances_click single_instances_closeModal split: option.splits)

lemma single_instances_run:
  assumes "single_instances st"
  shows "single_instances (run st evs)"
  unfolding run_def
  by (rule single_instances_foldl [where P = single_instances])
    (simp_all add: single_instances_handle assms)

lemma single_instances_loaded: "single_instances (init (loaded page fmt nt pos) u a)"
  by (simp add: single_instances_def holds_only_def live_on_def loaded_def init_def)

section \<open>Re-rendering a slot\<close>

lemma holds_only_count: "holds_only st c v \<Longrightarrow> live_count st c \<le> 1"
  by (simp add: holds_only_def live_count_def split: option.splits)

lemma single_instances_slot:
  "single_instances st \<Longrightarrow> holds_only st (PageCanvas (slot_id s)) (slot_chart st s)"
  by (simp add: single_instances_slots)

lemma single_instances_modal:
  "single_instances st \<Longrightarrow> holds_only st ModalCanvas (modalChartInstance st)"
  by (simp add: single_instances_def)

lemma slot_live_one:
  assumes "single_instances st" and "slot_chart st s = Some c"
  shows "live_on st (PageCanvas (slot_id s)) = [c]"
  using single_instances_slot [OF assms(1), of s] assms(2) by (simp add: holds_only_def)

lemma mount_dom_presence: "(dom (mount st s ty d opts title) i = None) = (dom st i = None)"
  by (cases s)
    (auto simp: mount_def Let_def addClickListener_def set_slot_def new_Chart_def destroy_def
      split: option.splits prod.splits)

lemma render_slot_dom_presence:
  "(dom (fst (render_slot s st data)) i = None) = (dom st i = None)"
  using render_slot_cases [of s st data] by (auto simp: mount_dom_presence)

lemma render_slot_sets:
  assumes "dom st (slot_id s) \<noteq> None" and "snd (render_slot s st data) = None"
  shows "slot_chart (fst (render_slot s st data)) s = Some (length (charts st))"
  using render_slot_cases [of s st data] assms by (auto simp: mount_slot_chart)

lemma render_slot_keeps:
  assumes "slot_chart st s \<noteq> None"
  shows "slot_chart (fst (render_slot s' st data)) s \<noteq> None"
  using render_slot_cases [of s' st data] assms by (auto simp: mount_slot_chart)

lemma render_slot_replaces:
  assumes "single_instances st" and "dom st (slot_id s) \<noteq> None"
    and "snd (render_slot s st data) = None"
  shows "live_on (fst (render_slot s st data)) (PageCanvas (slot_id s)) = [length (charts st)]"
  using slot_live_one [OF single_instances_render_slot [OF assms(1)] render_slot_sets [OF assms(2,3)]] .

lemma live_on_alive: "alive (charts st ! i) \<Longrightarrow> i < length (charts st) \<Longrightarrow> i \<in> set (live_on st (canvas (charts st ! i)))"
  by (simp add: live_on_def)

lemma render_slot_destroys:
  assumes "single_instances st" and "dom st (slot_id s) \<noteq> None"
    and "snd (render_slot s st data) = None" and "slot_chart st s = Some old"
  shows "\<not> alive (charts (fst (render_slot s st data)) ! old)"
proof -
  from slot_live_one [OF assms(1,4)] have o: "old \<in> set (live_on st (PageCanvas (slot_id s)))"
    by simp
  then have lt: "old < length (charts st)" by (simp add: live_on_def)
  from render_slot_cases [of s st data] assms(2,3)
  obtain h ty d options title where
    r: "fst (render_slot s st data) = mount (st\<lparr>heap := h\<rparr>) s ty d options title"
    by auto
  have "slot_chart (st\<lparr>heap := h\<rparr>) s = Some old"
    using assms(4) by simp
  then have "charts (mount (st\<lparr>heap := h\<rparr>) s ty d options title) ! old
               = (charts st ! old)\<lparr>alive := False\<rparr>"
    using lt
    by (simp add: mount_def Let_def charts_addClickListener charts_set_slot new_Chart_def
          destroy_def nth_append split: prod.splits)
  with r show ?thesis by simp
qed

lemma rerender_snoc:
  "rerender f st (ds @ [d]) =
     (case rerender f st ds of
        None \<Rightarrow> None
      | Some st1 \<Rightarrow> (case f st1 d of (st2, None) \<Rightarrow> Some st2 | (st2, Some e) \<Rightarrow> None))"
  by (induction ds arbitrary: st) (auto split: prod.splits option.splits)

lemma rerender_preserves:
  assumes "\<And>st d. P st \<Longrightarrow> P (fst (f st d))" and "P st" and "rerender f st ds = Some st'"
  shows "P st'"
  using assms(2,3)
proof (induction ds arbitrary: st)
  case Nil
  then show ?case by simp
next
  case (Cons d ds)
  obtain st1 r where f: "f st d = (st1, r)" by (cases "f st d") auto
  with Cons.prems(2) have r: "r = None" and rr: "rerender f st1 ds = Some st'"
    by (auto split: option.splits)
  from assms(1) [OF Cons.prems(1), of d] f have "P st1" by simp
  from Cons.IH [OF this rr] show ?case .
qed

lemma rerender_slot_one:
  assumes "single_instances st" and "dom st (slot_id s) \<noteq> None" and "ds \<noteq> []"
    and "rerender (render_slot s) st ds = Some st'"
  shows "live_count st' (PageCanvas (slot_id s)) = 1"
proof -
  from assms(3) obtain ds' d where ds: "ds = ds' @ [d]"
    by (cases ds rule: rev_cases) auto
  from assms(4) ds obtain st1 where
    s1: "rerender (render_slot s) st ds' = Some st1" and
    l: "render_slot s st1 d = (st', None)"
    by (auto simp: rerender_snoc split: option.splits prod.splits)
  have i1: "single_instances st1"
    by (rule rerender_preserves [where P = single_instances, OF _ assms(1) s1])
      (rule single_instances_render_slot)
  have d1: "dom st1 (slot_id s) \<noteq> None"
    by (rule rerender_preserves [where P = "\<lambda>st. dom st (slot_id s) \<noteq> None", OF _ assms(2) s1])
      (simp add: render_slot_dom_presence)
  from render_slot_replaces [OF i1 d1, of d] l show ?thesis
    by (simp add: live_count_def)
qed

section \<open>Re-rendering the four slots; slots under every event\<close>

lemma and_then_completes:
  "snd (and_then r f) = None \<longleftrightarrow> snd r = None \<and> snd (f (fst r)) = None"
  by (cases r) (auto simp: and_then_def split: option.splits)

lemma and_then_fst: "snd r = None \<Longrightarrow> fst (and_then r f) = fst (f (fst r))"
  by (cases r) (auto simp: and_then_def)

lemma and_then_preserves:
  assumes "P (fst r)" and "\<And>st. P st \<Longrightarrow> P (fst (f st))"
  shows "P (fst (and_then r f))"
  using assms by (cases r) (auto simp: and_then_def split: option.splits)

lemma renderCharts_dom_presence:
  "(dom (fst (renderCharts st data)) i = None) = (dom st i = None)"
proof -
  have "dom st i = None \<Longrightarrow> dom (fst (renderCharts st data)) i = None"
    unfolding renderCharts_slots
    by (intro and_then_preserves [where P = "\<lambda>s. dom s i = None"])
      (simp_all add: render_slot_dom_presence)
  moreover have "dom st i \<noteq> None \<Longrightarrow> dom (fst (renderCharts st data)) i \<noteq> None"
    unfolding renderCharts_slots
    by (intro and_then_preserves [where P = "\<lambda>s. dom s i \<noteq> None"])
      (simp_all add: render_slot_dom_presence)
  ultimately show ?thesis by blast
qed

lemma renderCharts_keeps:
  assumes "slot_chart st s \<noteq> None"
  shows "slot_chart (fst (renderCharts st data)) s \<noteq> None"
  unfolding renderCharts_slots
  by (intro and_then_preserves [where P = "\<lambda>st. slot_chart st s \<noteq> None"] render_slot_keeps assms)

lemma renderCharts_sets:
  assumes "snd (renderCharts st data) = None" and "dom st (slot_id s) \<noteq> None"
  shows "slot_chart (fst (renderCharts st data)) s \<noteq> None"
proof -
  let ?r1 = "render_slot BooksPerCategory st data"
  let ?r2 = "render_slot LoansOverTime (fst ?r1) data"
  let ?r3 = "render_slot LoanStatus (fst ?r2) data"
  let ?r4 = "render_slot Language (fst ?r3) data"
  from assms(1) have c1: "snd ?r1 = None"
    by (simp add: renderCharts_slots and_then_completes)
  from assms(1) c1 have c2: "snd ?r2 = None"
    by (simp add: renderCharts_slots and_then_completes and_then_fst)
  from assms(1) c1 c2 have c3: "snd ?r3 = None"
    by (simp add: renderCharts_slots and_then_completes and_then_fst)
  from assms(1) c1 c2 c3 have c4: "snd ?r4 = None"
    by (simp add: renderCharts_slots and_then_completes and_then_fst)
  note c = c1 c2 c3 c4
  from c have f: "fst (renderCharts st data) = fst ?r4"
    by (simp add: renderCharts_slots and_then_fst and_then_completes)
  have d: "dom st (slot_id s) \<noteq> None" "dom (fst ?r1) (slot_id s) \<noteq> None"
    "dom (fst ?r2) (slot_id s) \<noteq> None" "dom (fst ?r3) (slot_id s) \<noteq> None"
    using assms(2) by (simp_all add: render_slot_dom_presence)
  have k12: "slot_chart (fst ?r1) s \<noteq> None \<Longrightarrow> slot_chart (fst ?r2) s \<noteq> None"
    and k23: "slot_chart (fst ?r2) s \<noteq> None \<Longrightarrow> slot_chart (fst ?r3) s \<noteq> None"
    and k34: "slot_chart (fst ?r3) s \<noteq> None \<Longrightarrow> slot_chart (fst ?r4) s \<noteq> None"
    by (rule render_slot_keeps, assumption)+
  show ?thesis
  proof (cases s)
    case BooksPerCategory
    with render_slot_sets [OF d(1) [unfolded BooksPerCategory] c(1)]
    have "slot_chart (fst ?r1) s \<noteq> None" by simp
    with k12 k23 k34 show ?thesis unfolding f by blast
  next
    case LoansOverTime
    with render_slot_sets [OF d(2) [unfolded LoansOverTime] c(2)]
    have "slot_chart (fst ?r2) s \<noteq> None" by simp
    with k23 k34 show ?thesis unfolding f by blast
  next
    case LoanStatus
    with render_slot_sets [OF d(3) [unfolded LoanStatus] c(3)]
    have "slot_chart (fst ?r3) s \<noteq> None" by simp
    with k34 show ?thesis unfolding f by blast
  next
    case Language
    with render_slot_sets [OF d(4) [unfolded Language] c(4)]
    show ?thesis unfolding f by simp
  qed
qed

lemma rerender_charts_one:
  assumes "single_instances st" and "dom st (slot_id s) \<noteq> None" and "ds \<noteq> []"
    and "rerender renderCharts st ds = Some st'"
  shows "live_count st' (PageCanvas (slot_id s)) = 1"
proof -
  from assms(3) obtain ds' d where ds: "ds = ds' @ [d]"
    by (cases ds rule: rev_cases) auto
  from assms(4) ds obtain st1 where
    s1: "rerender renderCharts st ds' = Some st1" and
    l: "renderCharts st1 d = (st', None)"
    by (auto simp: rerender_snoc split: option.splits prod.splits)
  have i1: "single_instances st1"
    by (rule rerender_preserves [where P = single_instances, OF _ assms(1) s1])
      (rule single_instances_renderCharts)
  have d1: "dom st1 (slot_id s) \<noteq> None"
    by (rule rerender_preserves [where P = "\<lambda>st. dom st (slot_id s) \<noteq> None", OF _ assms(2) s1])
      (simp add: renderCharts_dom_presence)
  from single_instances_renderCharts [OF i1, of d] l have i': "single_instances st'"
    by simp
  from renderCharts_sets [of st1 d s] l d1 obtain c where "slot_chart st' s = Some c"
    by auto
  from slot_live_one [OF i' this] show ?thesis
    by (simp add: live_count_def)
qed

lemma slot_chart_frame:
  assumes "booksPerCategoryChart st' = booksPerCategoryChart st"
    and "loansOverTimeChart st' = loansOverTimeChart st"
    and "loanStatusChart st' = loanStatusChart st"
    and "languageChart st' = languageChart st"
  shows "slot_chart st' s = slot_chart st s"
  using assms by (cases s) (simp_all add: slot_chart_def)

lemma slot_chart_console_error [simp]: "slot_chart (console_error st m e) s = slot_chart st s"
  by (rule slot_chart_frame) (simp_all add: console_error_def)

lemma slot_chart_updateElement [simp]: "slot_chart (updateElement st i v) s = slot_chart st s"
  by (rule slot_chart_frame) (simp_all add: updateElement_def split: option.splits)

lemma slot_chart_set_innerHTML [simp]: "slot_chart (set_innerHTML st i v) s = slot_chart st s"
  by (rule slot_chart_frame) (simp_all add: set_innerHTML_def split: option.splits)

lemma slot_chart_titled [simp]: "slot_chart (titled st t) s = slot_chart st s"
  by (rule slot_chart_frame) simp_all

lemma slot_chart_swapped [simp]: "slot_chart (swapped st h ty d opts) s = slot_chart st s"
  by (rule slot_chart_frame) simp_all

lemma slot_chart_closeModal [simp]: "slot_chart (closeModal st) s = slot_chart st s"
  by (rule slot_chart_frame) simp_all

lemma slot_chart_openModalForChart [simp]:
  "slot_chart (fst (openModalForChart st src t)) s = slot_chart st s"
  using openModalForChart_cases [of st src t] by auto

lemma slot_chart_run_listener [simp]: "slot_chart (run_listener st l) s = slot_chart st s"
proof (cases l)
  case (ExpandChart s' title)
  obtain st1 r where o: "openModalForChart st (slot_chart st s') title = (st1, r)"
    by (cases "openModalForChart st (slot_chart st s') title") auto
  have "slot_chart (fst (openModalForChart st (slot_chart st s') title)) s = slot_chart st s"
    by simp
  with o have "slot_chart st1 s = slot_chart st s"
    by simp
  with ExpandChart o show ?thesis
    by (cases r) (simp_all add: run_listener_def)
qed

lemma slot_chart_click [simp]: "slot_chart (click st i) s = slot_chart st s"
proof -
  have "slot_chart (foldl run_listener st ls) s = slot_chart st s" for ls
    by (induction ls arbitrary: st) simp_all
  then show ?thesis by (simp add: click_def split: option.splits)
qed

lemma slot_chart_loadDashboardStats [simp]:
  "slot_chart (loadDashboardStats st out) s = slot_chart st s"
  by (simp add: loadDashboardStats_def loadDashboardStats_then_def loadDashboardStats_catch_def
      counter_ids_def Let_def split: sum.splits prod.splits option.splits)

lemma slot_chart_loadRecentActivity [simp]:
  "slot_chart (loadRecentActivity st out) s = slot_chart st s"
  by (simp add: loadRecentActivity_def loadRecentActivity_then_def loadRecentActivity_catch_def
      split: sum.splits prod.splits option.splits)

lemma loadBookStats_settled_keeps:
  assumes "slot_chart st s \<noteq> None"
  shows "slot_chart (loadBookStats_settled st out) s \<noteq> None"
proof (cases out)
  case NetworkFailure
  with assms show ?thesis by (simp add: loadBookStats_settled_def)
next
  case (Response r)
  show ?thesis
  proof (cases "body_json r")
    case None
    with Response assms show ?thesis by (simp add: loadBookStats_settled_def)
  next
    case (Some j)
    obtain h data where hd: "of_json (heap st) j = (h, data)"
      by (cases "of_json (heap st) j") auto
    from assms have "slot_chart (fst (renderCharts (st\<lparr>heap := h\<rparr>) data)) s \<noteq> None"
      by (intro renderCharts_keeps) simp
    with Response Some hd show ?thesis
      by (auto simp: loadBookStats_settled_def split: prod.splits option.splits)
  qed
qed

lemma handle_keeps:
  assumes "slot_chart st s \<noteq> None"
  shows "slot_chart (handle st ev) s \<noteq> None"
  using assms
  by (cases ev) (simp_all add: handle_def loadBookStats_settled_keeps split: option.splits)

lemma run_keeps:
  assumes "slot_chart st s \<noteq> None"
  shows "slot_chart (run st evs) s \<noteq> None"
  unfolding run_def
  by (rule single_instances_foldl [where P = "\<lambda>st. slot_chart st s \<noteq> None"])
    (simp_all add: handle_keeps assms)

section \<open>One live instance per slot\<close>

text \<open>
  Claim C1. From a state in which every chart variable holds the only live instance on its
  canvas (as when the script is loaded), whatever events follow, each of the four slot
  canvases has at most one live chart instance, and exactly one once its slot variable is
  set. A run of a slot's render function that finds the canvas and completes leaves the new
  instance as the only live one on the canvas, the instance the variable held before being
  destroyed. So re-rendering a slot any number of times (at least once), or running
  \<^verbatim>\<open>renderCharts\<close> that often, leaves exactly one live instance in a slot whose canvas
  exists.
\<close>

theorem slot_single_instance:
  assumes "single_instances st"
  shows "(\<forall>s. live_count (run st evs) (PageCanvas (slot_id s)) \<le> 1)
       \<and> (\<forall>s. slot_chart st s \<noteq> None \<longrightarrow> live_count (run st evs) (PageCanvas (slot_id s)) = 1)
       \<and> (\<forall>s. dom st (slot_id s) \<noteq> None \<and> snd (render_slot s st data) = None \<longrightarrow>
              live_on (fst (render_slot s st data)) (PageCanvas (slot_id s)) = [length (charts st)]
              \<and> slot_chart (fst (render_slot s st data)) s = Some (length (charts st))
              \<and> (\<forall>old. slot_chart st s = Some old \<longrightarrow>
                     \<not> alive (charts (fst (render_slot s st data)) ! old)))
       \<and> (\<forall>s. ds \<noteq> [] \<and> dom st (slot_id s) \<noteq> None \<and> rerender (render_slot s) st ds \<noteq> None \<longrightarrow>
              live_count (the (rerender (render_slot s) st ds)) (PageCanvas (slot_id s)) = 1)
       \<and> (\<forall>s. ds \<noteq> [] \<and> dom st (slot_id s) \<noteq> None \<and> rerender renderCharts st ds \<noteq> None \<longrightarrow>
              live_count (the (rerender renderCharts st ds)) (PageCanvas (slot_id s)) = 1)"
proof (intro conjI allI impI)
  fix s
  show "live_count (run st evs) (PageCanvas (slot_id s)) \<le> 1"
    by (rule holds_only_count, rule single_instances_slot, rule single_instances_run, rule assms)
next
  fix s
  assume "slot_chart st s \<noteq> None"
  then obtain c where "slot_chart (run st evs) s = Some c"
    using run_keeps [of st s evs] by auto
  from slot_live_one [OF single_instances_run [OF assms] this]
  show "live_count (run st evs) (PageCanvas (slot_id s)) = 1"
    by (simp add: live_count_def)
next
  fix s
  assume a: "dom st (slot_id s) \<noteq> None \<and> snd (render_slot s st data) = None"
  then show "live_on (fst (render_slot s st data)) (PageCanvas (slot_id s)) = [length (charts st)]"
    by (intro render_slot_replaces assms) simp_all
  from a show "slot_chart (fst (render_slot s st data)) s = Some (length (charts st))"
    by (intro render_slot_sets) simp_all
  fix old
  assume "slot_chart st s = Some old"
  with a show "\<not> alive (charts (fst (render_slot s st data)) ! old)"
    by (intro render_slot_destroys assms) simp_all
next
  fix s
  assume "ds \<noteq> [] \<and> dom st (slot_id s) \<noteq> None \<and> rerender (render_slot s) st ds \<noteq> None"
  then show "live_count (the (rerender (render_slot s) st ds)) (PageCanvas (slot_id s)) = 1"
    using rerender_slot_one [OF assms, of s ds] by auto
next
  fix s
  assume "ds \<noteq> [] \<and> dom st (slot_id s) \<noteq> None \<and> rerender renderCharts st ds \<noteq> None"
  then show "live_count (the (rerender renderCharts st ds)) (PageCanvas (slot_id s)) = 1"
    using rerender_charts_one [OF assms, of s ds] by auto
qed

theorem slot_single_instance_witness:
  "single_instances page_with_payload
   \<and> live_count (run page_with_payload
        [StatsSettled (json_reply one_category), StatsSettled NetworkFailure,
         StatsSettled (json_reply one_category)])
        (PageCanvas (slot_id BooksPerCategory)) \<le> 1
   \<and> live_count (the (rerender (render_slot BooksPerCategory) page_with_payload [payload, payload]))
        (PageCanvas (slot_id BooksPerCategory)) = 1
   \<and> live_count (the (rerender renderCharts page_with_payload [payload, payload, payload]))
        (PageCanvas (slot_id Language)) = 1"
proof -
  have i: "single_instances page_with_payload"
    by code_simp
  have d: "dom page_with_payload (slot_id BooksPerCategory) \<noteq> None"
    "dom page_with_payload (slot_id Language) \<noteq> None"
    by code_simp+
  have r1: "rerender (render_slot BooksPerCategory) page_with_payload [payload, payload] \<noteq> None"
    by code_simp
  have r2: "rerender renderCharts page_with_payload [payload, payload, payload] \<noteq> None"
    by code_simp
  have n: "[payload, payload] \<noteq> []" "[payload, payload, payload] \<noteq> []"
    by simp_all
  from slot_single_instance [OF i, of _ payload "[payload, payload]"] d(1) r1 n(1)
  have a: "live_count (the (rerender (render_slot BooksPerCategory) page_with_payload [payload, payload]))
        (PageCanvas (slot_id BooksPerCategory)) = 1"
    by blast
  from slot_single_instance [OF i, of _ payload "[payload, payload, payload]"] d(2) r2 n(2)
  have b: "live_count (the (rerender renderCharts page_with_payload [payload, payload, payload]))
        (PageCanvas (slot_id Language)) = 1"
    by blast
  from slot_single_instance [OF i,
      of "[StatsSettled (json_reply one_category), StatsSettled NetworkFailure,
         StatsSettled (json_reply one_category)]" payload "[payload]"]
  have c: "live_count (run page_with_payload
        [StatsSettled (json_reply one_category), StatsSettled NetworkFailure,
         StatsSettled (json_reply one_category)])
        (PageCanvas (slot_id BooksPerCategory)) \<le> 1"
    by blast
  from i a b c show ?thesis by blast
qed

section \<open>One live instance in the modal\<close>

lemma holds_only_titled [simp]: "holds_only (titled st t) c v = holds_only st c v"
  by (simp add: holds_only_def live_on_def)

lemma openModalForChart_completes:
  assumes "snd (openModalForChart st src t) = None"
  shows "\<exists>c h d opts. src = Some c \<and> c < length (charts st)
           \<and> fst (openModalForChart st src t)
               = swapped (titled st t) h (chart_type (charts st ! c)) d opts"
  using openModalForChart_cases [of st src t] assms by auto blast

lemma openModalForChart_replaces:
  assumes "single_instances st" and "snd (openModalForChart st src t) = None"
  shows "live_on (fst (openModalForChart st src t)) ModalCanvas = [length (charts st)]"
    and "modalChartInstance (fst (openModalForChart st src t)) = Some (length (charts st))"
proof -
  from openModalForChart_completes [OF assms(2)] obtain c h d opts where
    f: "fst (openModalForChart st src t)
          = swapped (titled st t) h (chart_type (charts st ! c)) d opts"
    by blast
  have "holds_only (titled st t) ModalCanvas (modalChartInstance (titled st t))"
    using single_instances_modal [OF assms(1)] by simp
  from swapped_live_on [OF this, of h _ d opts ModalCanvas] f
  show "live_on (fst (openModalForChart st src t)) ModalCanvas = [length (charts st)]"
    by simp
  from f show "modalChartInstance (fst (openModalForChart st src t)) = Some (length (charts st))"
    by simp
qed

lemma swapped_destroys:
  assumes "modalChartInstance st = Some old" and "old < length (charts st)"
  shows "\<not> alive (charts (swapped st h ty d opts) ! old)"
  using assms
  by (simp add: swapped_def set_modal_display_def new_Chart_def destroy_def nth_append)

lemma modal_chart_bound:
  assumes "single_instances st" and "modalChartInstance st = Some old"
  shows "old < length (charts st)"
proof -
  from single_instances_modal [OF assms(1)] assms(2)
  have "old \<in> set (live_on st ModalCanvas)"
    by (simp add: holds_only_def)
  then show ?thesis by (simp add: live_on_def)
qed

lemma openModalForChart_destroys:
  assumes "single_instances st" and "snd (openModalForChart st src t) = None"
    and "modalChartInstance st = Some old"
  shows "\<not> alive (charts (fst (openModalForChart st src t)) ! old)"
proof -
  from openModalForChart_completes [OF assms(2)] obtain c h d opts where
    f: "fst (openModalForChart st src t)
          = swapped (titled st t) h (chart_type (charts st ! c)) d opts"
    by blast
  from modal_chart_bound [OF assms(1,3)] assms(3) show ?thesis
    unfolding f by (intro swapped_destroys) simp_all
qed

lemma closeModal_destroys:
  assumes "modalChartInstance st = Some old" and "old < length (charts st)"
  shows "\<not> alive (charts (closeModal st) ! old)"
  using assms by (simp add: closeModal_def Let_def destroy_def)

text \<open>
  Claim C7. From a state in which every chart variable holds the only live instance on its
  canvas, whatever events follow, the modal canvas has at most one live chart instance. A
  run of \<^verbatim>\<open>openModalForChart\<close> that completes leaves the new instance as the only live
  one on the modal canvas and in the modal variable, the instance held before being
  destroyed; so after two runs in succession, the second completing, there is exactly one.
  \<^verbatim>\<open>closeModal\<close> leaves no live instance on the modal canvas and the variable null, has
  destroyed the instance held, and keeps the modal subtree, hidden, so that the next
  \<^verbatim>\<open>ensureModal\<close> builds nothing.
\<close>

theorem modal_single_instance:
  assumes "single_instances st"
  shows "live_count (run st evs) ModalCanvas \<le> 1
       \<and> (snd (openModalForChart st src t) = None \<longrightarrow>
            live_on (fst (openModalForChart st src t)) ModalCanvas = [length (charts st)]
            \<and> modalChartInstance (fst (openModalForChart st src t)) = Some (length (charts st))
            \<and> (\<forall>old. modalChartInstance st = Some old \<longrightarrow>
                   \<not> alive (charts (fst (openModalForChart st src t)) ! old)))
       \<and> (snd (openModalForChart (fst (openModalForChart st src t)) src' t') = None \<longrightarrow>
            live_count (fst (openModalForChart (fst (openModalForChart st src t)) src' t'))
              ModalCanvas = 1)
       \<and> live_count (closeModal st) ModalCanvas = 0
       \<and> modalChartInstance (closeModal st) = None
       \<and> (\<forall>old. modalChartInstance st = Some old \<longrightarrow> \<not> alive (charts (closeModal st) ! old))
       \<and> (\<forall>m. modal st = Some m \<longrightarrow>
              modal (closeModal st) = Some (m\<lparr>modal_display := ''none''\<rparr>)
              \<and> ensureModal (closeModal st) = closeModal st)"
proof (intro conjI allI impI)
  show "live_count (run st evs) ModalCanvas \<le> 1"
    by (rule holds_only_count, rule single_instances_modal, rule single_instances_run, rule assms)
next
  assume c: "snd (openModalForChart st src t) = None"
  from openModalForChart_replaces [OF assms c]
  show "live_on (fst (openModalForChart st src t)) ModalCanvas = [length (charts st)]"
    and "modalChartInstance (fst (openModalForChart st src t)) = Some (length (charts st))"
    by simp_all
  fix old
  assume "modalChartInstance st = Some old"
  from openModalForChart_destroys [OF assms c this]
  show "\<not> alive (charts (fst (openModalForChart st src t)) ! old)" .
next
  assume c: "snd (openModalForChart (fst (openModalForChart st src t)) src' t') = None"
  have "single_instances (fst (openModalForChart st src t))"
    by (rule single_instances_openModalForChart [OF assms])
  from openModalForChart_replaces(1) [OF this c]
  show "live_count (fst (openModalForChart (fst (openModalForChart st src t)) src' t'))
          ModalCanvas = 1"
    by (simp add: live_count_def)
next
  show "live_count (closeModal st) ModalCanvas = 0"
    using closeModal_live_on [OF single_instances_modal [OF assms], of ModalCanvas]
    by (simp add: live_count_def)
next
  show "modalChartInstance (closeModal st) = None"
    by simp
next
  fix old
  assume o: "modalChartInstance st = Some old"
  from closeModal_destroys [OF o modal_chart_bound [OF assms o]]
  show "\<not> alive (charts (closeModal st) ! old)" .
next
  fix m
  assume m: "modal st = Some m"
  then show "modal (closeModal st) = Some (m\<lparr>modal_display := ''none''\<rparr>)"
    by simp
  from m show "ensureModal (closeModal st) = closeModal st"
    by (simp add: ensureModal_def)
qed

theorem modal_single_instance_witness:
  "single_instances rendered_page
   \<and> live_count (run rendered_page [Clicked ''booksPerCategoryChart'', Clicked ''languageChart''])
       ModalCanvas \<le> 1
   \<and> live_count (fst (openModalForChart (fst (openModalForChart rendered_page (Some 0) ''Books''))
                        (Some 3) ''Languages'')) ModalCanvas = 1
   \<and> live_count (closeModal expanded_page) ModalCanvas = 0
   \<and> modal (closeModal expanded_page)
       = Some \<lparr>modal_display = ''none'', modal_title = ''Books''\<rparr>"
proof -
  have i: "single_instances rendered_page"
    by code_simp
  have o: "snd (openModalForChart (fst (openModalForChart rendered_page (Some 0) ''Books''))
                  (Some 3) ''Languages'') = None"
    by code_simp
  have i2: "single_instances expanded_page"
    unfolding expanded_page_def by (rule single_instances_openModalForChart [OF i])
  have m: "modal expanded_page = Some \<lparr>modal_display = ''flex'', modal_title = ''Books''\<rparr>"
    by code_simp
  from modal_single_instance [OF i,
      of "[Clicked ''booksPerCategoryChart'', Clicked ''languageChart'']"
         "Some 0" "''Books''" "Some 3" "''Languages''"] o
  have a: "live_count (run rendered_page [Clicked ''booksPerCategoryChart'', Clicked ''languageChart''])
       ModalCanvas \<le> 1"
    and b: "live_count (fst (openModalForChart (fst (openModalForChart rendered_page (Some 0) ''Books''))
                        (Some 3) ''Languages'')) ModalCanvas = 1"
    by blast+
  from modal_single_instance [OF i2, of "[]" None "[]" None "[]"] m
  have c: "live_count (closeModal expanded_page) ModalCanvas = 0"
    and d: "modal (closeModal expanded_page)
       = Some (\<lparr>modal_display = ''flex'', modal_title = ''Books''\<rparr>\<lparr>modal_display := ''none''\<rparr>)"
    by blast+
  from i a b c d show ?thesis by simp
qed


section \<open>Click listeners on a canvas\<close>

lemma mount_click_listener_count:
  "click_listener_count (mount st s ty d opts title) i =
     click_listener_count st i + (if i = slot_id s \<and> dom st i \<noteq> None then 1 else 0)"
  by (cases s)
    (auto simp: mount_def Let_def click_listener_count_def addClickListener_def set_slot_def
      new_Chart_def destroy_def split: option.splits prod.splits)

lemma click_listener_count_heap [simp]:
  "click_listener_count (st\<lparr>heap := h\<rparr>) i = click_listener_count st i"
  by (simp add: click_listener_count_def)

lemma render_slot_click_listener_count:
  assumes "dom st (slot_id s) \<noteq> None" and "snd (render_slot s st data) = None"
  shows "click_listener_count (fst (render_slot s st data)) (slot_id s)
           = click_listener_count st (slot_id s) + 1"
  using render_slot_cases [of s st data] assms
  by (auto simp: mount_click_listener_count)

text \<open>Every run of a slot's render function that finds the canvas and completes adds one
  click listener to the canvas, and nothing removes one.\<close>

lemma click_listeners_accumulate:
  assumes "dom st (slot_id s) \<noteq> None"
    and "rerender (render_slot s) st ds = Some st'"
  shows "click_listener_count st' (slot_id s) = click_listener_count st (slot_id s) + length ds"
  using assms
proof (induction ds arbitrary: st)
  case Nil
  then show ?case by simp
next
  case (Cons d ds)
  obtain st1 r where f: "render_slot s st d = (st1, r)"
    by (cases "render_slot s st d") auto
  with Cons.prems(2) have r: "r = None" and rr: "rerender (render_slot s) st1 ds = Some st'"
    by (auto split: option.splits)
  from render_slot_dom_presence [of s st d "slot_id s"] f Cons.prems(1)
  have d1: "dom st1 (slot_id s) \<noteq> None"
    by simp
  from render_slot_click_listener_count [OF Cons.prems(1), of d] f r
  have "click_listener_count st1 (slot_id s) = click_listener_count st (slot_id s) + 1"
    by simp
  with Cons.IH [OF d1 rr] show ?case
    by simp
qed

text \<open>
  Claim C2 fails on the code: the canvas does not keep exactly one click listener. On a page
  with the category canvas and no listener on it, three runs of
  \<^verbatim>\<open>renderBooksPerCategoryChart\<close> in succession leave three click listeners on the
  canvas, and a click then runs \<^verbatim>\<open>openModalForChart\<close> three times.
\<close>

theorem three_renders_three_listeners:
  "click_listener_count page_with_payload (slot_id BooksPerCategory) = 0
   \<and> click_listener_count
        (the (rerender (render_slot BooksPerCategory) page_with_payload [payload, payload, payload]))
        (slot_id BooksPerCategory) = 3"
proof -
  have d: "dom page_with_payload (slot_id BooksPerCategory) \<noteq> None"
    by code_simp
  have z: "click_listener_count page_with_payload (slot_id BooksPerCategory) = 0"
    by code_simp
  have "rerender (render_slot BooksPerCategory) page_with_payload [payload, payload, payload] \<noteq> None"
    by code_simp
  then obtain st' where
    r: "rerender (render_slot BooksPerCategory) page_with_payload [payload, payload, payload] = Some st'"
    by blast
  from click_listeners_accumulate [OF d r] z r show ?thesis
    by simp
qed

section \<open>The store only grows\<close>

lemma alloc_eq: "alloc h ob = (h @ [ob], VRef (length h))"
  by (simp add: alloc_def)

lemma of_json_extends:
  "\<exists>ext. fst (of_json h j) = h @ ext"
  "\<exists>ext. fst (of_jsons h js) = h @ ext"
  "\<exists>ext. fst (of_fields h fs) = h @ ext"
proof (induction h j and h js and h fs rule: of_json_of_jsons_of_fields.induct)
  case (5 h js)
  then show ?case by (auto simp: alloc_eq split: prod.splits)
next
  case (6 h fs)
  then show ?case by (auto simp: alloc_eq split: prod.splits)
next
  case (8 h j js)
  obtain h1 v where a: "of_json h j = (h1, v)" by (cases "of_json h j") auto
  obtain h2 vs where b: "of_jsons h1 js = (h2, vs)" by (cases "of_jsons h1 js") auto
  from 8(1) a obtain m1 where "h1 = h @ m1" by auto
  moreover from 8(2) [OF a [symmetric]] b obtain m2 where "h2 = h1 @ m2" by auto
  ultimately show ?case using a b by simp
next
  case (10 h k j fs)
  obtain h1 v where a: "of_json h j = (h1, v)" by (cases "of_json h j") auto
  obtain h2 ps where b: "of_fields h1 fs = (h2, ps)" by (cases "of_fields h1 fs") auto
  from 10(1) a obtain m1 where "h1 = h @ m1" by auto
  moreover from 10(2) [OF a [symmetric]] b obtain m2 where "h2 = h1 @ m2" by auto
  ultimately show ?case using a b by simp
qed simp_all

lemma get_prop_append:
  "in_store h v \<Longrightarrow> get_prop (h @ ext) v k = get_prop h v k"
  by (cases v) (auto simp: in_store_def nth_append)

lemma read_prop_append: "in_store h v \<Longrightarrow> read_prop (h @ ext) v k = read_prop h v k"
  by (simp add: read_prop_def get_prop_append)

lemma elements_append: "in_store h v \<Longrightarrow> elements (h @ ext) v = elements h v"
  by (cases v) (auto simp: in_store_def elements_def nth_append)

section \<open>The arrays a chart is drawn from\<close>

lemma collect_map:
  "collect (map f xs) = Inr ys \<Longrightarrow> map f xs = map Inr ys"
proof (induction xs arbitrary: ys)
  case Nil
  then show ?case by simp
next
  case (Cons x xs)
  then show ?case
    by (cases "f x") (auto split: sum.splits)
qed

lemma collect_get_prop:
  assumes "collect (map (\<lambda>x. get_prop h x k) xs) = Inr ys"
  shows "ys = map (\<lambda>x. read_prop h x k) xs"
proof -
  from collect_map [OF assms]
  have "map (case_sum (\<lambda>e. VUndefined) id) (map (\<lambda>x. get_prop h x k) xs)
          = map (case_sum (\<lambda>e. VUndefined) id) (map Inr ys)"
    by simp
  then show ?thesis
    by (simp add: comp_def read_prop_def id_def cong: sum.case_cong)
qed

lemma slice0_array:
  assumes "a < length h" and "h ! a = Arr xs ps"
  shows "slice0 h (VRef a) n = Inr (h @ [Arr (take n xs) []], VRef (length h))"
  using assms by (simp add: slice0_def alloc_eq)

lemma map_prop_array:
  assumes "a < length h" and "h ! a = Arr xs ps" and "map_prop h (VRef a) k = Inr (h', r)"
  shows "h' = h @ [Arr (map (\<lambda>x. read_prop h x k) xs) []] \<and> r = VRef (length h)"
proof -
  from assms obtain ys where c: "collect (map (\<lambda>x. get_prop h x k) xs) = Inr ys"
    and r: "h' = h @ [Arr ys []]" "r = VRef (length h)"
    by (auto simp: map_prop_def alloc_eq split: sum.splits)
  from collect_get_prop [OF c] r show ?thesis by simp
qed

lemma read_prop_map_append:
  assumes "list_all (in_store h) xs"
  shows "map (\<lambda>x. read_prop (h @ ext) x k) xs = map (\<lambda>x. read_prop h x k) xs"
  using assms by (induction xs) (simp_all add: read_prop_append)

lemma dataset_arrays_sliced:
  assumes "get_prop h data key = Inr (VRef a)" and "a < length h" and "h ! a = Arr rows ps"
    and "list_all (in_store h) rows"
    and "dataset_arrays h data key (Some n) lk vk = Inr (h', labels, vals, colors)"
  shows "h' = h @ [Arr (take n rows) [],
                   Arr (map (\<lambda>x. read_prop h x lk) (take n rows)) [],
                   Arr (map (\<lambda>x. read_prop h x vk) (take n rows)) [],
                   Arr (map VStr (buildBarColors (length (take n rows)))) []]
       \<and> labels = VRef (length h + 1) \<and> vals = VRef (length h + 2)
       \<and> colors = VRef (length h + 3)"
proof -
  let ?h2 = "h @ [Arr (take n rows) []]"
  let ?rows = "VRef (length h)"
  have in2: "list_all (in_store h) (take n rows)"
    using assms(4) by (auto simp: list_all_iff dest: in_set_takeD)
  from assms(5) obtain h3 l where
    m1: "map_prop ?h2 ?rows lk = Inr (h3, l)"
    by (simp add: dataset_arrays_def assms(1) or_empty_array_def slice0_array [OF assms(2,3)]
        split: sum.splits prod.splits) 
  have "length h < length ?h2" "?h2 ! length h = Arr (take n rows) []"
    by simp_all
  from map_prop_array [OF this m1]
  have h3: "h3 = ?h2 @ [Arr (map (\<lambda>x. read_prop h x lk) (take n rows)) []]"
    and l: "l = VRef (length h + 1)"
    by (simp_all add: read_prop_map_append [OF in2])
  from assms(5) m1 obtain h4 v where
    m2: "map_prop h3 ?rows vk = Inr (h4, v)"
    by (simp add: dataset_arrays_def assms(1) or_empty_array_def slice0_array [OF assms(2,3)]
        split: sum.splits prod.splits)
  have "length h < length h3" "h3 ! length h = Arr (take n rows) []"
    by (simp_all add: h3 nth_append)
  from map_prop_array [OF this m2]
  have h4: "h4 = h3 @ [Arr (map (\<lambda>x. read_prop h x vk) (take n rows)) []]"
    and v: "v = VRef (length h + 2)"
    using read_prop_map_append [OF in2, of "[Arr (take n rows) [], Arr (map (\<lambda>x. read_prop h x lk) (take n rows)) []]" vk]
    by (simp_all add: h3)
  have e: "elements h4 ?rows = take n rows"
    by (simp add: elements_def h4 h3 nth_append)
  from assms(5) m1 m2 have "colors_for h4 ?rows = (h', colors)" "labels = l" "vals = v"
    by (simp_all add: dataset_arrays_def assms(1) or_empty_array_def slice0_array [OF assms(2,3)]
        split: sum.splits prod.splits)
  then show ?thesis
    using e by (auto simp: colors_for_def alloc_eq h4 h3 l v)
qed

section \<open>The rows a chart is drawn from\<close>

lemma mount_heap: "heap (mount st s ty d opts title) = heap st"
  by (cases s)
    (auto simp: mount_def Let_def addClickListener_def set_slot_def new_Chart_def destroy_def
      split: option.splits prod.splits)

lemma mount_new_chart:
  "charts (mount st s ty d opts title) ! length (charts st)
     = \<lparr>canvas = PageCanvas (slot_id s), chart_type = VStr ty, chart_data = d,
        chart_options = opts, alive = True\<rparr>"
  by (auto simp: mount_def Let_def charts_addClickListener charts_set_slot new_Chart_def
        destroy_def nth_append split: option.splits prod.splits)

lemma render_rows_first_n:
  assumes canvas: "dom st (slot_id s) \<noteq> None"
    and src: "get_prop (heap st) data key = Inr (VRef a)" "a < length (heap st)"
      "heap st ! a = Arr rows ps"
    and rows: "list_all (in_store (heap st)) rows"
    and completes: "snd (render_rows st data s key (Some n) lk vk ty dl opts title) = None"
  shows "chart_labels (fst (render_rows st data s key (Some n) lk vk ty dl opts title))
           (length (charts st))
         = map (\<lambda>x. read_prop (heap st) x lk) (take n rows)"
    and "chart_values (fst (render_rows st data s key (Some n) lk vk ty dl opts title))
           (length (charts st))
         = map (\<lambda>x. read_prop (heap st) x vk) (take n rows)"
proof -
  let ?h = "heap st"
  let ?L = "map (\<lambda>x. read_prop ?h x lk) (take n rows)"
  let ?V = "map (\<lambda>x. read_prop ?h x vk) (take n rows)"
  let ?r = "render_rows st data s key (Some n) lk vk ty dl opts title"
  from completes obtain h5 labels vals colors where
    da: "dataset_arrays ?h data key (Some n) lk vk = Inr (h5, labels, vals, colors)"
    by (cases "dataset_arrays ?h data key (Some n) lk vk")
      (auto simp: render_rows_def)
  from dataset_arrays_sliced [OF src rows da]
  have h5: "h5 = ?h @ [Arr (take n rows) [], Arr ?L [], Arr ?V [],
                      Arr (map VStr (buildBarColors (length (take n rows)))) []]"
    and l: "labels = VRef (length ?h + 1)" and v: "vals = VRef (length ?h + 2)"
    by simp_all
  let ?dataset = "[(''label'', VStr dl), (''data'', vals), (''backgroundColor'', colors)]"
  let ?h8 = "h5 @ [Obj ?dataset, Arr [VRef (length h5)] [],
                   Obj [(''labels'', labels), (''datasets'', VRef (length h5 + 1))]]"
  have cdo: "chart_data_object h5 labels ?dataset = (?h8, VRef (length h5 + 2))"
    by (simp add: chart_data_object_def alloc_eq)
  obtain h9 options where oj: "of_json ?h8 opts = (h9, options)"
    by (cases "of_json ?h8 opts") auto
  from of_json_extends(1) [of ?h8 opts] oj obtain ext where h9: "h9 = ?h8 @ ext"
    by auto
  from canvas obtain el where el: "dom st (slot_id s) = Some el"
    by auto
  have r: "fst ?r = mount (st\<lparr>heap := h9\<rparr>) s ty (VRef (length h5 + 2)) options title"
    using oj by (simp add: render_rows_def da el cdo del: of_json.simps)
  have ch: "chart_data (charts (fst ?r) ! length (charts st)) = VRef (length h5 + 2)"
    using mount_new_chart [of "st\<lparr>heap := h9\<rparr>" s ty "VRef (length h5 + 2)" options title]
    by (simp add: r)
  have hp: "heap (fst ?r) = h9"
    by (simp add: r mount_heap)
  have len: "length h5 = length ?h + 4"
    by (simp add: h5)
  have rl: "read_prop h9 (VRef (length h5 + 2)) ''labels'' = labels"
    and rd: "read_prop h9 (VRef (length h5 + 2)) ''datasets'' = VRef (length h5 + 1)"
    and rv: "read_prop h9 (VRef (length h5)) ''data'' = vals"
    by (simp_all add: read_prop_def h9 nth_append)
  have el: "elements h9 labels = ?L"
    and ev: "elements h9 vals = ?V"
    and ed: "elements h9 (VRef (length h5 + 1)) = [VRef (length h5)]"
    by (simp_all add: elements_def h9 l v len nth_append) (simp_all add: h5 nth_append)
  show "chart_labels (fst ?r) (length (charts st)) = ?L"
    by (simp only: chart_labels_def ch hp rl el)
  show "chart_values (fst ?r) (length (charts st)) = ?V"
    by (simp only: chart_values_def ch hp rd ed rv ev list.case)
qed

section \<open>Truncation to the first rows\<close>




text \<open>
  Claim C6. When the category canvas exists, the payload's \<^verbatim>\<open>category_book_counts\<close> is an
  array and \<^verbatim>\<open>renderBooksPerCategoryChart\<close> completes, the chart it constructs has as
  labels the \<^verbatim>\<open>name\<close> and as values the \<^verbatim>\<open>total_books\<close> of the first 20 rows of that
  array, in the array's order; likewise \<^verbatim>\<open>renderLanguageChart\<close> with the \<^verbatim>\<open>language\<close>
  and \<^verbatim>\<open>total\<close> of the first 12 rows of \<^verbatim>\<open>language_distribution\<close>.
\<close>

theorem first_rows_rendered:
  "(dom st (slot_id BooksPerCategory) \<noteq> None
    \<and> get_prop (heap st) data ''category_book_counts'' = Inr (VRef a)
    \<and> a < length (heap st) \<and> heap st ! a = Arr rows ps
    \<and> list_all (in_store (heap st)) rows
    \<and> snd (renderBooksPerCategoryChart st data) = None \<longrightarrow>
      booksPerCategoryChart (fst (renderBooksPerCategoryChart st data)) = Some (length (charts st))
      \<and> chart_labels (fst (renderBooksPerCategoryChart st data)) (length (charts st))
          = map (\<lambda>x. read_prop (heap st) x ''name'') (take 20 rows)
      \<and> chart_values (fst (renderBooksPerCategoryChart st data)) (length (charts st))
          = map (\<lambda>x. read_prop (heap st) x ''total_books'') (take 20 rows))
   \<and> (dom st (slot_id Language) \<noteq> None
    \<and> get_prop (heap st) data ''language_distribution'' = Inr (VRef b)
    \<and> b < length (heap st) \<and> heap st ! b = Arr langs qs
    \<and> list_all (in_store (heap st)) langs
    \<and> snd (renderLanguageChart st data) = None \<longrightarrow>
      languageChart (fst (renderLanguageChart st data)) = Some (length (charts st))
      \<and> chart_labels (fst (renderLanguageChart st data)) (length (charts st))
          = map (\<lambda>x. read_prop (heap st) x ''language'') (take 12 langs)
      \<and> chart_values (fst (renderLanguageChart st data)) (length (charts st))
          = map (\<lambda>x. read_prop (heap st) x ''total'') (take 12 langs))"
proof (intro conjI impI)
  assume h: "dom st (slot_id BooksPerCategory) \<noteq> None
    \<and> get_prop (heap st) data ''category_book_counts'' = Inr (VRef a)
    \<and> a < length (heap st) \<and> heap st ! a = Arr rows ps
    \<and> list_all (in_store (heap st)) rows
    \<and> snd (renderBooksPerCategoryChart st data) = None"
  then have c: "snd (render_slot BooksPerCategory st data) = None"
    and d: "dom st (slot_id BooksPerCategory) \<noteq> None"
    and g: "get_prop (heap st) data ''category_book_counts'' = Inr (VRef a)"
    and a: "a < length (heap st)" "heap st ! a = Arr rows ps"
    and i: "list_all (in_store (heap st)) rows"
    and r: "snd (render_rows st data BooksPerCategory ''category_book_counts'' (Some 20) ''name''
       ''total_books'' ''doughnut'' ''Sach'' legend_bottom_options
       ''So luong sach theo the loai'') = None"
    by (simp_all add: render_slot_def renderBooksPerCategoryChart_def)
  from render_slot_sets [OF d c]
  show "booksPerCategoryChart (fst (renderBooksPerCategoryChart st data)) = Some (length (charts st))"
    by (simp add: render_slot_def slot_chart_def)
  from render_rows_first_n [OF d g a i r]
  show "chart_labels (fst (renderBooksPerCategoryChart st data)) (length (charts st))
          = map (\<lambda>x. read_prop (heap st) x ''name'') (take 20 rows)"
    and "chart_values (fst (renderBooksPerCategoryChart st data)) (length (charts st))
          = map (\<lambda>x. read_prop (heap st) x ''total_books'') (take 20 rows)"
    by (simp_all add: renderBooksPerCategoryChart_def)
next
  assume h: "dom st (slot_id Language) \<noteq> None
    \<and> get_prop (heap st) data ''language_distribution'' = Inr (VRef b)
    \<and> b < length (heap st) \<and> heap st ! b = Arr langs qs
    \<and> list_all (in_store (heap st)) langs
    \<and> snd (renderLanguageChart st data) = None"
  then have c: "snd (render_slot Language st data) = None"
    and d: "dom st (slot_id Language) \<noteq> None"
    and g: "get_prop (heap st) data ''language_distribution'' = Inr (VRef b)"
    and a: "b < length (heap st)" "heap st ! b = Arr langs qs"
    and i: "list_all (in_store (heap st)) langs"
    and r: "snd (render_rows st data Language ''language_distribution'' (Some 12) ''language''
       ''total'' ''bar'' ''So luong sach'' no_legend_options
       ''Ngon ngu sach trong thu vien'') = None"
    by (simp_all add: render_slot_def renderLanguageChart_def)
  from render_slot_sets [OF d c]
  show "languageChart (fst (renderLanguageChart st data)) = Some (length (charts st))"
    by (simp add: render_slot_def slot_chart_def)
  from render_rows_first_n [OF d g a i r]
  show "chart_labels (fst (renderLanguageChart st data)) (length (charts st))
          = map (\<lambda>x. read_prop (heap st) x ''language'') (take 12 langs)"
    and "chart_values (fst (renderLanguageChart st data)) (length (charts st))
          = map (\<lambda>x. read_prop (heap st) x ''total'') (take 12 langs)"
    by (simp_all add: renderLanguageChart_def)
qed

theorem first_rows_rendered_witness:
  "length (chart_labels (fst (renderBooksPerCategoryChart many_rows_page many_rows_payload)) 0) = 20
   \<and> length (chart_values (fst (renderBooksPerCategoryChart many_rows_page many_rows_payload)) 0) = 20
   \<and> length (chart_labels (fst (renderLanguageChart many_rows_page many_rows_payload)) 0) = 12
   \<and> length (chart_values (fst (renderLanguageChart many_rows_page many_rows_payload)) 0) = 12"
proof -
  have d: "dom many_rows_page (slot_id BooksPerCategory) \<noteq> None"
    "dom many_rows_page (slot_id Language) \<noteq> None"
    by code_simp+
  have g: "get_prop (heap many_rows_page) many_rows_payload ''category_book_counts'' = Inr (VRef 25)"
    "get_prop (heap many_rows_page) many_rows_payload ''language_distribution'' = Inr (VRef 41)"
    by code_simp+
  have a: "25 < length (heap many_rows_page)" "41 < length (heap many_rows_page)"
    by code_simp+
  have r: "heap many_rows_page ! 25 = Arr (map VRef [0..<25]) []"
    "heap many_rows_page ! 41 = Arr (map VRef [26..<41]) []"
    by code_simp+
  have i: "list_all (in_store (heap many_rows_page)) (map VRef [0..<25])"
    "list_all (in_store (heap many_rows_page)) (map VRef [26..<41])"
    by code_simp+
  have c: "snd (renderBooksPerCategoryChart many_rows_page many_rows_payload) = None"
    "snd (renderLanguageChart many_rows_page many_rows_payload) = None"
    by code_simp+
  have z: "length (charts many_rows_page) = 0"
    by code_simp
  from first_rows_rendered [of many_rows_page many_rows_payload 25 "map VRef [0..<25]" "[]"
      41 "map VRef [26..<41]" "[]"] d g a r i c
  have "chart_labels (fst (renderBooksPerCategoryChart many_rows_page many_rows_payload))
          (length (charts many_rows_page))
          = map (\<lambda>x. read_prop (heap many_rows_page) x ''name'') (take 20 (map VRef [0..<25]))"
    and "chart_values (fst (renderBooksPerCategoryChart many_rows_page many_rows_payload))
          (length (charts many_rows_page))
          = map (\<lambda>x. read_prop (heap many_rows_page) x ''total_books'') (take 20 (map VRef [0..<25]))"
    and "chart_labels (fst (renderLanguageChart many_rows_page many_rows_payload))
          (length (charts many_rows_page))
          = map (\<lambda>x. read_prop (heap many_rows_page) x ''language'') (take 12 (map VRef [26..<41]))"
    and "chart_values (fst (renderLanguageChart many_rows_page many_rows_payload))
          (length (charts many_rows_page))
          = map (\<lambda>x. read_prop (heap many_rows_page) x ''total'') (take 12 (map VRef [26..<41]))"
    by blast+
  then show ?thesis
    unfolding z by simp
qed

section \<open>The summary counters on success and on failure\<close>

lemma dom_string_dash: "dom_string nt h (VStr ''-'') = ''-''"
  by (simp add: dom_string_def to_string_def)

lemma updateElement_dom:
  "dom (updateElement st i v) j =
     (if j = i
      then map_option (\<lambda>el. el\<lparr>textContent :=
             (case v of VNum n \<Rightarrow> toLocaleString st n | _ \<Rightarrow> dom_string (numberToString st) (heap st) v)\<rparr>)
             (dom st i)
      else dom st j)"
  by (simp add: updateElement_def split: option.splits)

lemma updateElement_fields [simp]:
  "heap (updateElement st i v) = heap st"
  "console (updateElement st i v) = console st"
  "charts (updateElement st i v) = charts st"
  "toLocaleString (updateElement st i v) = toLocaleString st"
  "numberToString (updateElement st i v) = numberToString st"
  by (simp_all add: updateElement_def split: option.splits)

lemma updateElement_displayed:
  "displayed (updateElement st i v) j =
     (if j = i
      then map_option (\<lambda>el. case v of VNum n \<Rightarrow> toLocaleString st n
                                 | _ \<Rightarrow> dom_string (numberToString st) (heap st) v) (dom st i)
      else displayed st j)"
  by (simp add: displayed_def updateElement_dom option.map_comp comp_def)

lemma updateElement_presence:
  "(dom (updateElement st i v) j = None) = (dom st j = None)"
  by (simp add: updateElement_dom)

lemma loadDashboardStats_catch_dom:
  "dom (loadDashboardStats_catch st e) i =
     (if i \<in> set counter_ids then map_option (\<lambda>el. el\<lparr>textContent := ''-''\<rparr>) (dom st i)
      else dom st i)"
proof -
  have c: "dom (console_error st m e) = dom st" for m
    by (simp add: console_error_def)
  show ?thesis
    by (simp add: loadDashboardStats_catch_def counter_ids_def updateElement_dom
          dom_string_dash c option.map_comp comp_def)
qed

lemma loadDashboardStats_catch_displayed:
  assumes "i \<in> set counter_ids"
  shows "displayed (loadDashboardStats_catch st e) i = map_option (\<lambda>el. ''-'') (dom st i)"
  using assms
  by (simp add: displayed_def loadDashboardStats_catch_dom option.map_comp comp_def)

lemma loadDashboardStats_catch_console:
  "console (loadDashboardStats_catch st e) = console st @ [(''Error loading stats:'', e)]"
  by (simp add: loadDashboardStats_catch_def counter_ids_def console_error_def)

lemma loadDashboardStats_then_presence:
  "(dom (fst (loadDashboardStats_then st data)) i = None) = (dom st i = None)"
  by (simp add: loadDashboardStats_then_def Let_def updateElement_presence split: sum.splits)

lemma loadDashboardStats_then_console:
  "console (fst (loadDashboardStats_then st data)) = console st"
  by (simp add: loadDashboardStats_then_def Let_def split: sum.splits)

lemma get_path_throws:
  "isl (get_path h data k1 k2) \<longleftrightarrow> nullish data \<or> nullish (read_prop h data k1)"
proof (cases "get_prop h data k1")
  case (Inl e)
  then show ?thesis
    by (cases data) (auto simp: get_path_def nullish_def split: if_splits obj.splits)
next
  case (Inr w)
  then have "\<not> nullish data"
    by (cases data) (auto simp: nullish_def)
  with Inr show ?thesis
    by (cases w) (auto simp: get_path_def nullish_def read_prop_def split: if_splits obj.splits)
qed

lemma loadDashboardStats_then_completes:
  "snd (loadDashboardStats_then st data) = None \<longleftrightarrow>
     \<not> isl (get_path (heap st) data ''basic'' ''total_books'')
     \<and> \<not> isl (get_path (heap st) data ''basic'' ''total_users'')
     \<and> \<not> isl (get_path (heap st) data ''requests'' ''pending'')
     \<and> \<not> isl (get_path (heap st) data ''loans'' ''overdue'')"
  by (auto simp: loadDashboardStats_then_def Let_def split: sum.splits)

lemma map_option_const_presence:
  "(x = None) = (y = None) \<Longrightarrow> map_option (\<lambda>a. c) x = map_option (\<lambda>a. c) y"
  by (cases x; cases y) auto

lemma loadDashboardStats_cases:
  "loadDashboardStats st out =
     (case fetchJSON out of
        Inl e \<Rightarrow> loadDashboardStats_catch st e
      | Inr j \<Rightarrow>
          (case snd (loadDashboardStats_then (parsed_store st j) (parsed_value st j)) of
             None \<Rightarrow> fst (loadDashboardStats_then (parsed_store st j) (parsed_value st j))
           | Some e \<Rightarrow> loadDashboardStats_catch
                        (fst (loadDashboardStats_then (parsed_store st j) (parsed_value st j))) e))"
  by (auto simp: loadDashboardStats_def parsed_store_def parsed_value_def
      split: sum.splits prod.splits option.splits)

lemma parsed_store_fields [simp]:
  "dom (parsed_store st j) = dom st"
  "console (parsed_store st j) = console st"
  "charts (parsed_store st j) = charts st"
  by (simp_all add: parsed_store_def)

text \<open>
  Claim C3, as the code has it. When the summary fetch fails (the request does not complete,
  the status is not a success, the content type is not JSON, the body does not parse) or the
  fulfilment handler throws, the failure handler logs the error and every counter the page
  has shows \<^verbatim>\<open>-\<close>, whether or not the fulfilment handler had written some of them. The
  fulfilment handler throws exactly when the payload is \<^verbatim>\<open>null\<close> or one of
  \<^verbatim>\<open>basic\<close>, \<^verbatim>\<open>requests\<close>, \<^verbatim>\<open>loans\<close> is missing or \<^verbatim>\<open>null\<close>. A payload with these
  three but without one of the four numbers is no failure: the failure handler does not
  run, nothing is logged, and the counters are as the fulfilment handler wrote them.
\<close>

theorem summary_failure:
  "(\<forall>e. fetchJSON out = Inl e \<longrightarrow>
        console (loadDashboardStats st out) = console st @ [(''Error loading stats:'', e)]
        \<and> (\<forall>i\<in>set counter_ids.
              displayed (loadDashboardStats st out) i = map_option (\<lambda>el. ''-'') (dom st i)))
   \<and> (\<forall>j e. fetchJSON out = Inr j
          \<and> snd (loadDashboardStats_then (parsed_store st j) (parsed_value st j)) = Some e \<longrightarrow>
        console (loadDashboardStats st out) = console st @ [(''Error loading stats:'', e)]
        \<and> (\<forall>i\<in>set counter_ids.
              displayed (loadDashboardStats st out) i = map_option (\<lambda>el. ''-'') (dom st i)))
   \<and> (\<forall>j. fetchJSON out = Inr j
          \<and> snd (loadDashboardStats_then (parsed_store st j) (parsed_value st j)) = None \<longrightarrow>
        console (loadDashboardStats st out) = console st
        \<and> loadDashboardStats st out
            = fst (loadDashboardStats_then (parsed_store st j) (parsed_value st j)))
   \<and> (\<forall>s data. snd (loadDashboardStats_then s data) = None \<longleftrightarrow>
          \<not> nullish data \<and> \<not> nullish (read_prop (heap s) data ''basic'')
          \<and> \<not> nullish (read_prop (heap s) data ''requests'')
          \<and> \<not> nullish (read_prop (heap s) data ''loans''))"
proof (intro conjI allI impI ballI)
  fix e
  assume "fetchJSON out = Inl e"
  then have l: "loadDashboardStats st out = loadDashboardStats_catch st e"
    by (simp add: loadDashboardStats_cases)
  show "console (loadDashboardStats st out) = console st @ [(''Error loading stats:'', e)]"
    by (simp add: l loadDashboardStats_catch_console)
  fix i
  assume "i \<in> set counter_ids"
  then show "displayed (loadDashboardStats st out) i = map_option (\<lambda>el. ''-'') (dom st i)"
    by (simp add: l loadDashboardStats_catch_displayed)
next
  fix j e
  let ?t = "loadDashboardStats_then (parsed_store st j) (parsed_value st j)"
  assume "fetchJSON out = Inr j \<and> snd ?t = Some e"
  then have l: "loadDashboardStats st out = loadDashboardStats_catch (fst ?t) e"
    by (simp add: loadDashboardStats_cases)
  show "console (loadDashboardStats st out) = console st @ [(''Error loading stats:'', e)]"
    by (simp add: l loadDashboardStats_catch_console loadDashboardStats_then_console)
  fix i
  assume "i \<in> set counter_ids"
  then have "displayed (loadDashboardStats st out) i = map_option (\<lambda>el. ''-'') (dom (fst ?t) i)"
    by (simp add: l loadDashboardStats_catch_displayed)
  also have "\<dots> = map_option (\<lambda>el. ''-'') (dom st i)"
    by (rule map_option_const_presence) (simp add: loadDashboardStats_then_presence)
  finally show "displayed (loadDashboardStats st out) i = map_option (\<lambda>el. ''-'') (dom st i)" .
next
  fix j
  let ?t = "loadDashboardStats_then (parsed_store st j) (parsed_value st j)"
  assume a: "fetchJSON out = Inr j \<and> snd ?t = None"
  then show "loadDashboardStats st out = fst ?t"
    by (simp add: loadDashboardStats_cases)
  with a show "console (loadDashboardStats st out) = console st"
    by (simp add: loadDashboardStats_then_console)
next
  fix s data
  show "snd (loadDashboardStats_then s data) = None \<longleftrightarrow>
          \<not> nullish data \<and> \<not> nullish (read_prop (heap s) data ''basic'')
          \<and> \<not> nullish (read_prop (heap s) data ''requests'')
          \<and> \<not> nullish (read_prop (heap s) data ''loans'')"
    by (auto simp: loadDashboardStats_then_completes get_path_throws)
qed

theorem summary_failure_witness:
  "fetchJSON (Response server_error_page)
     = Inl (Error ''Unexpected response (500): <h1>Server Error</h1>...'')
   \<and> console (loadDashboardStats dashboard_page (Response server_error_page))
     = [(''Error loading stats:'', Error ''Unexpected response (500): <h1>Server Error</h1>...'')]
   \<and> map (displayed (loadDashboardStats dashboard_page (Response server_error_page))) counter_ids
     = [Some ''-'', Some ''-'', Some ''-'', Some ''-'']"
proof -
  have f: "fetchJSON (Response server_error_page)
     = Inl (Error ''Unexpected response (500): <h1>Server Error</h1>...'')"
    by code_simp
  have c: "console dashboard_page = []"
    by code_simp
  have d: "map (dom dashboard_page) counter_ids = map (\<lambda>i. Some (control [])) counter_ids"
    by code_simp
  from summary_failure [of "Response server_error_page" dashboard_page] f
  have a: "console (loadDashboardStats dashboard_page (Response server_error_page))
            = console dashboard_page
              @ [(''Error loading stats:'', Error ''Unexpected response (500): <h1>Server Error</h1>...'')]"
    and b: "\<forall>i\<in>set counter_ids.
              displayed (loadDashboardStats dashboard_page (Response server_error_page)) i
              = map_option (\<lambda>el. ''-'') (dom dashboard_page i)"
    by blast+
  from b d have "map (displayed (loadDashboardStats dashboard_page (Response server_error_page)))
      counter_ids = [Some ''-'', Some ''-'', Some ''-'', Some ''-'']"
    by (simp add: counter_ids_def)
  with f a c show ?thesis by simp
qed

text \<open>A reply with status 200 whose payload has \<^verbatim>\<open>basic\<close>, \<^verbatim>\<open>requests\<close> and \<^verbatim>\<open>loans\<close>
  but no \<^verbatim>\<open>basic.total_books\<close>: nothing is logged, the first counter shows the empty text
  and the other three their numbers.\<close>

theorem summary_missing_field_counterexample:
  "map (displayed (loadDashboardStats dashboard_page (json_reply no_total_books))) counter_ids
     = [Some [], Some ''#'', Some ''#'', Some ''#'']
   \<and> console (loadDashboardStats dashboard_page (json_reply no_total_books)) = []"
  by code_simp

section \<open>Errors of the three loads\<close>


lemma set_innerHTML_fields [simp]:
  "heap (set_innerHTML st i html) = heap st"
  "console (set_innerHTML st i html) = console st"
  "charts (set_innerHTML st i html) = charts st"
  by (simp_all add: set_innerHTML_def split: option.splits)














section \<open>Objects made by a clone\<close>



lemma made_since_prim [simp]:
  "made_since n h VUndefined" "made_since n h VNull" "made_since n h (VBool b)" "made_since n h (VNum x)"
  "made_since n h (VStr s)" "made_since n h VFun"
  by (simp_all add: made_since_def)

lemma made_since_ref [simp]: "made_since n h (VRef a) \<longleftrightarrow> n \<le> a \<and> a < length h"
  by (simp add: made_since_def)




lemma keeps_below_iff:
  "keeps_below n h h' \<longleftrightarrow> length h \<le> length h' \<and> (\<forall>b<n. h' ! b = h ! b)"
  by (auto simp: keeps_below_def list_all_iff)

lemma keeps_below_refl [simp]: "keeps_below n h h"
  by (simp add: keeps_below_iff)
















section \<open>What a clone holds\<close>




section \<open>The steps of openModalForChart\<close>



lemma swapped_heap [simp]: "heap (swapped st h ty d opts) = h"
  by (simp add: swapped_def set_modal_display_def new_Chart_def)

lemma swapped_charts:
  "charts (swapped st h ty d opts)
     = (case modalChartInstance st of
          None \<Rightarrow> charts st
        | Some old \<Rightarrow> charts (destroy st old))
       @ [\<lparr>canvas = ModalCanvas, chart_type = ty, chart_data = d, chart_options = opts,
           alive = True\<rparr>]"
  by (simp add: swapped_def set_modal_display_def new_Chart_def split: option.splits)



lemma length_charts_swapped: "length (charts (swapped st h ty d opts)) = Suc (length (charts st))"
  by (simp add: swapped_charts length_charts_destroy split: option.splits)


lemma destroy_heap [simp]: "heap (destroy st c) = heap st"
  by (simp add: destroy_def)





section \<open>The modal chart shares nothing with its source\<close>





end
